theory Spec2Isabelle
  imports Complex_Main "HOL-Library.Multiset"
begin

section \<open>Values thrown and caught\<close>

text \<open>
  A JavaScript call either returns or throws, and it may have changed the state it
  ran on before it threw. A call is therefore a function from the state to the new state
  and either the thrown value (\<open>Inl\<close>) or the returned one (\<open>Inr\<close>).

  A thrown value is an \<open>Error\<close> object with its \<open>name\<close> and its \<open>message\<close>, or
  any other value, carried as what \<open>String(err)\<close> makes of it.
\<close>

datatype thrown = ErrorObject string string | NonError string

type_synonym ('w, 'a) js = "'w \<Rightarrow> 'w \<times> (thrown + 'a)"

definition js_return :: "'a \<Rightarrow> ('w, 'a) js" where
  "js_return v w = (w, Inr v)"

definition js_bind :: "('w, 'a) js \<Rightarrow> ('a \<Rightarrow> ('w, 'b) js) \<Rightarrow> ('w, 'b) js" where
  "js_bind m f w = (case m w of (w1, Inl e) \<Rightarrow> (w1, Inl e) | (w1, Inr v) \<Rightarrow> f v w1)"

definition try_catch :: "('w, 'a) js \<Rightarrow> (thrown \<Rightarrow> ('w, 'a) js) \<Rightarrow> ('w, 'a) js" where
  "try_catch body handler w =
     (case body w of (w1, Inl e) \<Rightarrow> handler e w1 | (w1, Inr v) \<Rightarrow> (w1, Inr v))"

text \<open>\<^verbatim>\<open>err instanceof Error ? err.message : String(err)\<close>\<close>

fun message_of :: "thrown \<Rightarrow> string" where
  "message_of (ErrorObject _ m) = m"
| "message_of (NonError s) = s"

section \<open>The context IPC handlers (src/src/main/ipc/context.ts)\<close>

text \<open>
  The reply of a handler: \<^verbatim>\<open>{ success: true, data }\<close> or
  \<^verbatim>\<open>{ success: false, error }\<close>.
\<close>

datatype 'a envelope = Success 'a | Failure string

text \<open>
  The module state of context.ts is the registry and the callback
  \<^verbatim>\<open>onContextSwitched\<close>, both set by \<^verbatim>\<open>initializeContextHandlers\<close>. The class
  of the registry is not part of the handlers' file, so the three handlers take the
  registry's methods as arguments: \<open>registry_list\<close>, \<open>registry_getActiveContextId\<close>
  and \<open>registry_switch\<close> are any calls on any state. \<open>registry_switch\<close> returns the pair
  \<^verbatim>\<open>{ previous, current }\<close>. The data of a successful switch, \<^verbatim>\<open>{ contextId }\<close>, is the
  requested id. Logging is left out.
\<close>

definition handle_CONTEXT_LIST :: "('w, 'l) js \<Rightarrow> ('w, 'l envelope) js" where
  "handle_CONTEXT_LIST registry_list =
     try_catch
       (js_bind registry_list (\<lambda>contexts. js_return (Success contexts)))
       (\<lambda>err. js_return (Failure (message_of err)))"

definition handle_CONTEXT_GET_ACTIVE :: "('w, 'i) js \<Rightarrow> ('w, 'i envelope) js" where
  "handle_CONTEXT_GET_ACTIVE registry_getActiveContextId =
     try_catch
       (js_bind registry_getActiveContextId
          (\<lambda>activeContextId. js_return (Success activeContextId)))
       (\<lambda>err. js_return (Failure (message_of err)))"

definition handle_CONTEXT_SWITCH ::
  "(string \<Rightarrow> ('w, 'c \<times> 'c) js) \<Rightarrow> ('c \<Rightarrow> ('w, unit) js) \<Rightarrow> string \<Rightarrow> ('w, string envelope) js"
where
  "handle_CONTEXT_SWITCH registry_switch onContextSwitched contextId =
     try_catch
       (js_bind (registry_switch contextId) (\<lambda>(previous, current).
        js_bind (onContextSwitched current) (\<lambda>_.
        js_return (Success contextId))))
       (\<lambda>err. js_return (Failure (message_of err)))"

section \<open>The main process\<close>

text \<open>
  The entry point of the main process, the second of the two files kept in
  src/src/renderer/App.tsx: the module's variables, \<^verbatim>\<open>wireFileWatcherEvents\<close>,
  \<^verbatim>\<open>onContextSwitched\<close>, \<^verbatim>\<open>initializeServices\<close> and \<^verbatim>\<open>createWindow\<close>.
\<close>

subsection \<open>State\<close>

text \<open>
  A service context has an id and a type (\<^verbatim>\<open>'local'\<close>, or a remote one reached over
  SSH). Each context owns one file watcher; the watcher of a context is named by the
  context's id.
\<close>

datatype context_type = LocalContext | RemoteContext

record service_context =
  ctx_id :: string
  ctx_type :: context_type

datatype conn_status = Disconnected | Connecting | Connected | ConnError string

text \<open>What \<^verbatim>\<open>sshConnectionManager.getStatus()\<close> returns: the status of every target.\<close>

type_synonym ssh_status = "(string \<times> conn_status) list"

datatype event_name = FileChange | TodoChange

text \<open>
  The two closures \<^verbatim>\<open>fileChangeHandler\<close> and \<^verbatim>\<open>todoChangeHandler\<close> are created anew by
  every call of \<^verbatim>\<open>wireFileWatcherEvents\<close>; \<^verbatim>\<open>off\<close> removes a listener by identity, so
  each closure carries the number of its creation.
\<close>

datatype handler = FileChangeHandler nat | TodoChangeHandler nat

text \<open>What \<^verbatim>\<open>mainWindow.webContents.send\<close> sends to the renderer; payloads are opaque.\<close>

datatype message =
    FileChangeMsg string
  | TodoChangeMsg string
  | SshStatusMsg ssh_status
  | ContextChangedMsg string context_type

text \<open>The calls made on the registry, the contexts, their watchers and the managers.\<close>

datatype call =
    RegisterContext string
  | Start string
  | SetNotificationManager string
  | On string event_name handler
  | Off string event_name handler
  | InitializeIpcHandlers
  | OnStateChange

datatype ssh_listener = ForwardToRenderer

text \<open>
  \<open>mainWindow\<close> is \<open>None\<close> for \<^verbatim>\<open>null\<close> and \<open>Some d\<close> for a window whose
  \<^verbatim>\<open>isDestroyed()\<close> is \<open>d\<close>. \<open>contexts\<close> and \<open>activeContextId\<close> are the registry,
  \<open>connections\<close> the connection manager's table and \<open>stateChangeListeners\<close> its
  \<^verbatim>\<open>'state-change'\<close> listeners. \<open>attached\<close> lists the listeners of all watchers in the
  order they were attached: (id of the watcher's context, event, handler).
  \<open>fileChangeCleanup\<close> and \<open>todoChangeCleanup\<close> are the module's two cleanup closures;
  a closure \<^verbatim>\<open>() => context.fileWatcher.off(event, handler)\<close> is the pair of the
  context's id and the handler it captured. \<open>sent\<close> and \<open>calls\<close> are logs.
\<close>

record world =
  mainWindow :: "bool option"
  contexts :: "service_context list"
  activeContextId :: string
  connections :: ssh_status
  stateChangeListeners :: "ssh_listener list"
  attached :: "(string \<times> event_name \<times> handler) list"
  fileChangeCleanup :: "(string \<times> handler) option"
  todoChangeCleanup :: "(string \<times> handler) option"
  nextClosure :: nat
  sent :: "message list"
  calls :: "call list"

text \<open>The module's variables when the process starts: nothing assigned yet.\<close>

definition initial_world :: world where
  "initial_world =
     \<lparr> mainWindow = None, contexts = [], activeContextId = [], connections = [],
       stateChangeListeners = [], attached = [], fileChangeCleanup = None,
       todoChangeCleanup = None, nextClosure = 0, sent = [], calls = [] \<rparr>"

text \<open>\<^verbatim>\<open>mainWindow && !mainWindow.isDestroyed()\<close>\<close>

definition window_live :: "world \<Rightarrow> bool" where
  "window_live w = (case mainWindow w of None \<Rightarrow> False | Some destroyed \<Rightarrow> \<not> destroyed)"

definition webContents_send :: "message \<Rightarrow> world \<Rightarrow> world" where
  "webContents_send m w = w\<lparr>sent := sent w @ [m]\<rparr>"

subsection \<open>File watchers\<close>

text \<open>
  Modelled from the spec: the class of the file watcher is not among the sources. By 4.3
  of the spec, \<^verbatim>\<open>on(eventName, handler)\<close> and \<^verbatim>\<open>off(eventName, handler)\<close> subscribe and
  unsubscribe, several subscribers are allowed, and delivery is in insertion order.
  \<open>off\<close> removes the latest registration of the handler, and is a no-op when there is
  none.
\<close>

definition remove_last :: "'a \<Rightarrow> 'a list \<Rightarrow> 'a list" where
  "remove_last x xs = rev (remove1 x (rev xs))"

definition fileWatcher_on :: "string \<Rightarrow> event_name \<Rightarrow> handler \<Rightarrow> world \<Rightarrow> world" where
  "fileWatcher_on c ev h w =
     w\<lparr>attached := attached w @ [(c, ev, h)], calls := calls w @ [On c ev h]\<rparr>"

definition fileWatcher_off :: "string \<Rightarrow> event_name \<Rightarrow> handler \<Rightarrow> world \<Rightarrow> world" where
  "fileWatcher_off c ev h w =
     w\<lparr>attached := remove_last (c, ev, h) (attached w), calls := calls w @ [Off c ev h]\<rparr>"

text \<open>
  The body of the two closures: forward the event to the renderer when the window is
  there and not destroyed.
\<close>

fun run_handler :: "handler \<Rightarrow> string \<Rightarrow> world \<Rightarrow> world" where
  "run_handler (FileChangeHandler _) event w =
     (if window_live w then webContents_send (FileChangeMsg event) w else w)"
| "run_handler (TodoChangeHandler _) event w =
     (if window_live w then webContents_send (TodoChangeMsg event) w else w)"

text \<open>The watcher of context \<open>c\<close> emits \<open>ev\<close>: its listeners for \<open>ev\<close> run in order.\<close>

definition listeners_of :: "string \<Rightarrow> event_name \<Rightarrow> world \<Rightarrow> handler list" where
  "listeners_of c ev w = map (\<lambda>(_, _, h). h) (filter (\<lambda>(c', ev', _). c' = c \<and> ev' = ev) (attached w))"

definition fileWatcher_emit :: "string \<Rightarrow> event_name \<Rightarrow> string \<Rightarrow> world \<Rightarrow> world" where
  "fileWatcher_emit c ev event w = fold (\<lambda>h. run_handler h event) (listeners_of c ev w) w"

subsection \<open>wireFileWatcherEvents\<close>

text \<open>
  The function in four steps, in the order of the source: run and clear
  \<open>fileChangeCleanup\<close>, run and clear \<open>todoChangeCleanup\<close>, attach the new file-change
  handler and store its cleanup, attach the new todo-change handler and store its
  cleanup.
\<close>

definition cleanup_fileChange :: "world \<Rightarrow> world" where
  "cleanup_fileChange w =
     (case fileChangeCleanup w of
        None \<Rightarrow> w
      | Some (c, h) \<Rightarrow> (fileWatcher_off c FileChange h w)\<lparr>fileChangeCleanup := None\<rparr>)"

definition cleanup_todoChange :: "world \<Rightarrow> world" where
  "cleanup_todoChange w =
     (case todoChangeCleanup w of
        None \<Rightarrow> w
      | Some (c, h) \<Rightarrow> (fileWatcher_off c TodoChange h w)\<lparr>todoChangeCleanup := None\<rparr>)"

definition wire_fileChange :: "service_context \<Rightarrow> world \<Rightarrow> world" where
  "wire_fileChange ctx w =
     (let fileChangeHandler = FileChangeHandler (nextClosure w) in
      (fileWatcher_on (ctx_id ctx) FileChange fileChangeHandler w)
        \<lparr>fileChangeCleanup := Some (ctx_id ctx, fileChangeHandler),
         nextClosure := Suc (nextClosure w)\<rparr>)"

definition wire_todoChange :: "service_context \<Rightarrow> world \<Rightarrow> world" where
  "wire_todoChange ctx w =
     (let todoChangeHandler = TodoChangeHandler (nextClosure w) in
      (fileWatcher_on (ctx_id ctx) TodoChange todoChangeHandler w)
        \<lparr>todoChangeCleanup := Some (ctx_id ctx, todoChangeHandler),
         nextClosure := Suc (nextClosure w)\<rparr>)"

definition wireFileWatcherEvents :: "service_context \<Rightarrow> world \<Rightarrow> world" where
  "wireFileWatcherEvents ctx w =
     wire_todoChange ctx (wire_fileChange ctx (cleanup_todoChange (cleanup_fileChange w)))"

text \<open>The states the function passes through, the state it starts from first.\<close>

definition wire_states :: "service_context \<Rightarrow> world \<Rightarrow> world list" where
  "wire_states ctx w =
     (let w1 = cleanup_fileChange w; w2 = cleanup_todoChange w1;
          w3 = wire_fileChange ctx w2; w4 = wire_todoChange ctx w3
      in [w, w1, w2, w3, w4])"

subsection \<open>onContextSwitched\<close>

definition onContextSwitched :: "service_context \<Rightarrow> world \<Rightarrow> world" where
  "onContextSwitched ctx w =
     (let w1 = wireFileWatcherEvents ctx w in
      if window_live w1
      then webContents_send (ContextChangedMsg (ctx_id ctx) (ctx_type ctx))
             (webContents_send (SshStatusMsg (connections w1)) w1)
      else w1)"

subsection \<open>The registry\<close>

text \<open>
  Modelled from the spec: the class \<^verbatim>\<open>ServiceContextRegistry\<close> is not among the sources.
  By 3 and 4.1 of the spec the registry maps ids to contexts and holds the active id,
  initially \<^verbatim>\<open>"local"\<close>; \<^verbatim>\<open>registerContext\<close> fails with \<^verbatim>\<open>DuplicateContextError\<close> on an id
  already present; \<^verbatim>\<open>list\<close> returns id, kind and status of every context;
  \<^verbatim>\<open>switch(targetId)\<close> fails with \<^verbatim>\<open>ContextNotFoundError\<close> on an unknown id, is a no-op
  returning the current context when the target is the active one, attempts once to
  connect a remote target that is not connected and fails with \<^verbatim>\<open>ConnectionError\<close>
  (active context unchanged) when the attempt fails, and otherwise sets the active id
  and returns \<^verbatim>\<open>{previous, current}\<close>. The outcome of the one connection attempt is
  the argument \<open>attempt\<close>: \<open>None\<close> when it succeeds, \<open>Some reason\<close> when it fails.
  The spec gives no wording for the messages; they are the error's name and the id.
\<close>

definition new_ServiceContextRegistry :: "world \<Rightarrow> world" where
  "new_ServiceContextRegistry w = w\<lparr>contexts := [], activeContextId := ''local''\<rparr>"

definition find_context :: "string \<Rightarrow> world \<Rightarrow> service_context option" where
  "find_context i w = find (\<lambda>c. ctx_id c = i) (contexts w)"

definition status_of :: "string \<Rightarrow> ssh_status \<Rightarrow> conn_status" where
  "status_of i conns = (case map_of conns i of None \<Rightarrow> Disconnected | Some s \<Rightarrow> s)"

definition set_status :: "string \<Rightarrow> conn_status \<Rightarrow> ssh_status \<Rightarrow> ssh_status" where
  "set_status i s conns = (i, s) # filter (\<lambda>(k, _). k \<noteq> i) conns"

definition registry_registerContext :: "service_context \<Rightarrow> (world, unit) js" where
  "registry_registerContext ctx w =
     (case find_context (ctx_id ctx) w of
        Some _ \<Rightarrow> (w, Inl (ErrorObject ''DuplicateContextError'' (ctx_id ctx)))
      | None \<Rightarrow>
          (w\<lparr>contexts := contexts w @ [ctx], calls := calls w @ [RegisterContext (ctx_id ctx)]\<rparr>,
           Inr ()))"

definition registry_list :: "(world, (string \<times> context_type \<times> conn_status) list) js" where
  "registry_list w =
     (w, Inr (map (\<lambda>c. (ctx_id c, ctx_type c, status_of (ctx_id c) (connections w))) (contexts w)))"

definition registry_getActiveContextId :: "(world, string) js" where
  "registry_getActiveContextId w = (w, Inr (activeContextId w))"

definition registry_switch ::
  "string option \<Rightarrow> string \<Rightarrow> (world, service_context \<times> service_context) js"
where
  "registry_switch attempt targetId w =
     (case find_context targetId w of
        None \<Rightarrow> (w, Inl (ErrorObject ''ContextNotFoundError'' targetId))
      | Some target \<Rightarrow>
          if targetId = activeContextId w then (w, Inr (target, target))
          else
            (case find_context (activeContextId w) w of
               None \<Rightarrow> (w, Inl (ErrorObject ''ContextNotFoundError'' (activeContextId w)))
             | Some previous \<Rightarrow>
                 if ctx_type target = RemoteContext
                    \<and> status_of targetId (connections w) \<noteq> Connected
                 then
                   (case attempt of
                      Some reason \<Rightarrow>
                        (w\<lparr>connections := set_status targetId (ConnError reason) (connections w)\<rparr>,
                         Inl (ErrorObject ''ConnectionError'' reason))
                    | None \<Rightarrow>
                        (w\<lparr>connections := set_status targetId Connected (connections w),
                           activeContextId := targetId\<rparr>,
                         Inr (previous, target)))
                 else (w\<lparr>activeContextId := targetId\<rparr>, Inr (previous, target))))"

text \<open>
  Modelled from the spec: the class \<^verbatim>\<open>ServiceContext\<close> is not among the sources. By 4.2
  \<^verbatim>\<open>start()\<close> begins the context's watcher; the call is recorded.
\<close>

definition context_start :: "service_context \<Rightarrow> world \<Rightarrow> world" where
  "context_start ctx w = w\<lparr>calls := calls w @ [Start (ctx_id ctx)]\<rparr>"

definition fileWatcher_setNotificationManager :: "service_context \<Rightarrow> world \<Rightarrow> world" where
  "fileWatcher_setNotificationManager ctx w =
     w\<lparr>calls := calls w @ [SetNotificationManager (ctx_id ctx)]\<rparr>"

subsection \<open>The connection manager's state-change event\<close>

text \<open>
  The listener that \<^verbatim>\<open>initializeServices\<close> registers on \<^verbatim>\<open>'state-change'\<close>:
  \<^verbatim>\<open>(status) => { if (mainWindow && !mainWindow.isDestroyed()) send(SSH_STATUS, status) }\<close>.
\<close>

fun run_ssh_listener :: "ssh_listener \<Rightarrow> ssh_status \<Rightarrow> world \<Rightarrow> world" where
  "run_ssh_listener ForwardToRenderer status w =
     (if window_live w then webContents_send (SshStatusMsg status) w else w)"

text \<open>
  The connection manager changes its status to \<open>status\<close> and emits \<^verbatim>\<open>'state-change'\<close>
  with it: every registered listener runs.
\<close>

definition emit_state_change :: "ssh_status \<Rightarrow> world \<Rightarrow> world" where
  "emit_state_change status w =
     fold (\<lambda>l. run_ssh_listener l status) (stateChangeListeners w) (w\<lparr>connections := status\<rparr>)"

subsection \<open>initializeServices, createWindow\<close>

definition js_step :: "('w \<Rightarrow> 'w) \<Rightarrow> ('w, unit) js" where
  "js_step f w = (f w, Inr ())"

definition localContext :: service_context where
  "localContext = \<lparr> ctx_id = ''local'', ctx_type = LocalContext \<rparr>"

definition new_SshConnectionManager :: "world \<Rightarrow> world" where
  "new_SshConnectionManager w = w\<lparr>connections := [], stateChangeListeners := []\<rparr>"

definition initializeIpcHandlers :: "world \<Rightarrow> world" where
  "initializeIpcHandlers w = w\<lparr>calls := calls w @ [InitializeIpcHandlers]\<rparr>"

definition sshConnectionManager_on_state_change :: "world \<Rightarrow> world" where
  "sshConnectionManager_on_state_change w =
     w\<lparr>stateChangeListeners := stateChangeListeners w @ [ForwardToRenderer],
       calls := calls w @ [OnStateChange]\<rparr>"

definition initializeServices :: "(world, unit) js" where
  "initializeServices =
     js_bind (js_step new_SshConnectionManager) (\<lambda>_.
     js_bind (js_step new_ServiceContextRegistry) (\<lambda>_.
     js_bind (registry_registerContext localContext) (\<lambda>_.
     js_bind (js_step (context_start localContext)) (\<lambda>_.
     js_bind (js_step (fileWatcher_setNotificationManager localContext)) (\<lambda>_.
     js_bind (js_step (wireFileWatcherEvents localContext)) (\<lambda>_.
     js_bind (js_step initializeIpcHandlers) (\<lambda>_.
     js_step sshConnectionManager_on_state_change)))))))"

definition createWindow :: "world \<Rightarrow> world" where
  "createWindow w = w\<lparr>mainWindow := Some False\<rparr>"

text \<open>The window's \<^verbatim>\<open>'closed'\<close> handler: \<^verbatim>\<open>mainWindow = null\<close>.\<close>

definition window_closed :: "world \<Rightarrow> world" where
  "window_closed w = w\<lparr>mainWindow := None\<rparr>"

subsection \<open>The switch handler on the main process\<close>

text \<open>
  The handler of \<^verbatim>\<open>context:switch\<close> with the registry above and the callback
  \<^verbatim>\<open>onContextSwitched\<close> of the main process.
\<close>

definition ipc_context_switch :: "string option \<Rightarrow> string \<Rightarrow> (world, string envelope) js" where
  "ipc_context_switch attempt =
     handle_CONTEXT_SWITCH (registry_switch attempt) (\<lambda>current. js_step (onContextSwitched current))"

text \<open>The state after \<^verbatim>\<open>app.whenReady()\<close>: services initialised, then the window created.\<close>

definition ready_world :: world where
  "ready_world = createWindow (fst (initializeServices initial_world))"

subsection \<open>Wiring invariants\<close>

text \<open>
  The listeners the two cleanup closures would remove, and the two properties of a
  state used below: the attached listeners are those of the cleanup closures, on one
  context; and the sink is wired to context \<open>c\<close> with one listener per event.
\<close>

definition cleanup_listeners :: "world \<Rightarrow> (string \<times> event_name \<times> handler) list" where
  "cleanup_listeners w =
     (case fileChangeCleanup w of None \<Rightarrow> [] | Some (c, h) \<Rightarrow> [(c, FileChange, h)]) @
     (case todoChangeCleanup w of None \<Rightarrow> [] | Some (c, h) \<Rightarrow> [(c, TodoChange, h)])"

definition wiring_ok :: "world \<Rightarrow> bool" where
  "wiring_ok w = (attached w = cleanup_listeners w \<and> length (remdups (map fst (attached w))) \<le> 1)"

definition one_context :: "world \<Rightarrow> bool" where
  "one_context w = (length (remdups (map fst (attached w))) \<le> 1)"

definition wired_to :: "string \<Rightarrow> world \<Rightarrow> bool" where
  "wired_to c w =
     (case (fileChangeCleanup w, todoChangeCleanup w) of
        (Some (c1, h1), Some (c2, h2)) \<Rightarrow>
          c1 = c \<and> c2 = c \<and> attached w = [(c, FileChange, h1), (c, TodoChange, h2)]
      | _ \<Rightarrow> False)"

subsection \<open>What happens after startup\<close>

text \<open>
  The events that reach the main process once the services are initialised: the window
  is created or closed, a context is registered, the renderer asks for a switch (with
  the outcome of the connection attempt, should one be made), a watcher emits an event,
  the connection manager reports a status change. \<open>run\<close> applies a sequence of them.
\<close>

datatype app_event =
    WindowCreated
  | WindowClosed
  | ContextRegistered service_context
  | SwitchRequested string "string option"
  | WatcherEmitted string event_name string
  | StateChanged ssh_status

fun apply_event :: "app_event \<Rightarrow> world \<Rightarrow> world" where
  "apply_event WindowCreated w = createWindow w"
| "apply_event WindowClosed w = window_closed w"
| "apply_event (ContextRegistered ctx) w = fst (registry_registerContext ctx w)"
| "apply_event (SwitchRequested targetId attempt) w = fst (ipc_context_switch attempt targetId w)"
| "apply_event (WatcherEmitted c ev event) w = fileWatcher_emit c ev event w"
| "apply_event (StateChanged status) w = emit_state_change status w"

definition run :: "app_event list \<Rightarrow> world \<Rightarrow> world" where
  "run evs w = fold apply_event evs w"

subsection \<open>States used as concrete inputs\<close>

definition sshContext :: service_context where
  "sshContext = \<lparr> ctx_id = ''ssh-host1'', ctx_type = RemoteContext \<rparr>"

text \<open>The ready state with the remote context \<^verbatim>\<open>ssh-host1\<close> registered, not connected.\<close>

definition remote_world :: world where
  "remote_world = fst (registry_registerContext sshContext ready_world)"

section \<open>RankedInjectionList (src/unnamed/part_000)\<close>

text \<open>
  A context injection, with the fields the component reads for the order and the key
  of a row. \<open>estimatedTokens\<close> is a count of tokens, a whole number; the difference of
  two counts is exact in JavaScript's numbers.
\<close>

record context_injection =
  inj_id :: string
  category :: string
  estimatedTokens :: int

text \<open>
  Arrays are objects on a heap: the heap is the list of the arrays allocated so far and
  an array's address is its position. \<^verbatim>\<open>[...injections]\<close> allocates a new array with
  the elements of the old one; \<^verbatim>\<open>Array.prototype.sort\<close> sorts the array at an address in
  place and returns that address. A reference held by the program is the address of an
  allocated array.
\<close>

type_synonym 'a heap = "'a list list"

definition spread_copy :: "nat \<Rightarrow> 'a heap \<Rightarrow> nat \<times> 'a heap" where
  "spread_copy a h = (length h, h @ [h ! a])"

text \<open>
  \<^verbatim>\<open>Array.prototype.sort(compareFn)\<close> is stable: \<open>x\<close> stays before \<open>y\<close> unless
  \<open>compareFn(x, y) > 0\<close>. As an insertion sort from the right: an element goes before
  the first one it does not have to follow.
\<close>

fun insert_by :: "('a \<Rightarrow> 'a \<Rightarrow> int) \<Rightarrow> 'a \<Rightarrow> 'a list \<Rightarrow> 'a list" where
  "insert_by compareFn x [] = [x]"
| "insert_by compareFn x (y # ys) =
     (if compareFn x y \<le> 0 then x # y # ys else y # insert_by compareFn x ys)"

definition sort_by :: "('a \<Rightarrow> 'a \<Rightarrow> int) \<Rightarrow> 'a list \<Rightarrow> 'a list" where
  "sort_by compareFn xs = foldr (insert_by compareFn) xs []"

definition array_sort :: "('a \<Rightarrow> 'a \<Rightarrow> int) \<Rightarrow> nat \<Rightarrow> 'a heap \<Rightarrow> nat \<times> 'a heap" where
  "array_sort compareFn a h = (a, h[a := sort_by compareFn (h ! a)])"

text \<open>\<^verbatim>\<open>(a, b) => b.estimatedTokens - a.estimatedTokens\<close>\<close>

definition by_tokens_desc :: "context_injection \<Rightarrow> context_injection \<Rightarrow> int" where
  "by_tokens_desc a b = estimatedTokens b - estimatedTokens a"

text \<open>\<^verbatim>\<open>[...injections].sort((a, b) => b.estimatedTokens - a.estimatedTokens)\<close>\<close>

definition sortedInjections ::
  "nat \<Rightarrow> context_injection heap \<Rightarrow> nat \<times> context_injection heap"
where
  "sortedInjections injections h =
     (case spread_copy injections h of (copy, h1) \<Rightarrow> array_sort by_tokens_desc copy h1)"

text \<open>The labels of \<^verbatim>\<open>CATEGORY_COLORS\<close>; a category not in the table is its own label.\<close>

definition category_label :: "string \<Rightarrow> string" where
  "category_label c =
     (if c = ''claude-md'' then ''CLAUDE.md''
      else if c = ''mentioned-file'' then ''File''
      else if c = ''tool-output'' then ''Tool''
      else if c = ''thinking-text'' then ''Thinking''
      else if c = ''task-coordination'' then ''Team''
      else if c = ''user-message'' then ''User''
      else c)"

text \<open>
  One rendered row: the key of the button, the label of the category pill, and the
  count handed to \<^verbatim>\<open>formatTokens\<close>.
\<close>

record row =
  row_key :: string
  row_label :: string
  row_tokens :: int

definition render_row :: "context_injection \<Rightarrow> row" where
  "render_row injection =
     \<lparr> row_key = inj_id injection, row_label = category_label (category injection),
       row_tokens = estimatedTokens injection \<rparr>"

text \<open>The component: the rows in the order of \<open>sortedInjections\<close>, and the heap after it.\<close>

definition RankedInjectionList ::
  "nat \<Rightarrow> context_injection heap \<Rightarrow> row list \<times> context_injection heap"
where
  "RankedInjectionList injections h =
     (case sortedInjections injections h of
        (sortedArray, h2) \<Rightarrow> (map render_row (h2 ! sortedArray), h2))"

definition non_increasing :: "int list \<Rightarrow> bool" where
  "non_increasing xs = sorted (rev xs)"

text \<open>An array of three injections, two of them of the same size.\<close>

definition three_injections :: "context_injection list" where
  "three_injections =
     [\<lparr> inj_id = ''a'', category = ''user-message'', estimatedTokens = 3 \<rparr>,
      \<lparr> inj_id = ''b'', category = ''claude-md'', estimatedTokens = 10 \<rparr>,
      \<lparr> inj_id = ''c'', category = ''tool-output'', estimatedTokens = 3 \<rparr>]"

section \<open>Metadata extraction (src/src/main/utils/metadataExtraction.ts)\<close>

subsection \<open>JSON values and what JavaScript does with them\<close>

text \<open>
  The value \<^verbatim>\<open>JSON.parse\<close> returns. The cast \<^verbatim>\<open>as ChatHistoryEntry\<close> checks nothing at run
  time, so an entry is any JSON value. The value read from a property is a
  \<open>json option\<close>, \<open>None\<close> for \<^verbatim>\<open>undefined\<close>.
\<close>

datatype json = JNull | JBool bool | JNum rat | JStr string | JArr "json list"
  | JObj "(string \<times> json) list"

text \<open>
  \<^verbatim>\<open>v.k\<close> for the property names this module reads (\<^verbatim>\<open>type\<close>, \<^verbatim>\<open>timestamp\<close>,
  \<^verbatim>\<open>message\<close>, \<^verbatim>\<open>content\<close>, \<^verbatim>\<open>text\<close>, \<^verbatim>\<open>cwd\<close>): reading a property of \<^verbatim>\<open>null\<close> throws a
  TypeError; an object has the properties it was parsed with (each listed once);
  numbers, strings, booleans and arrays have none of these names.
\<close>

fun get_prop :: "json \<Rightarrow> string \<Rightarrow> thrown + json option" where
  "get_prop JNull k = Inl (ErrorObject ''TypeError'' (''Cannot read properties of null: '' @ k))"
| "get_prop (JObj kvs) k = Inr (map_of kvs k)"
| "get_prop _ k = Inr None"

text \<open>
  \<^verbatim>\<open>'cwd' in v\<close>: a TypeError unless \<open>v\<close> is an object or an array; an array has no
  property \<^verbatim>\<open>cwd\<close>.
\<close>

fun cwd_in :: "json \<Rightarrow> thrown + bool" where
  "cwd_in (JObj kvs) = Inr (map_of kvs ''cwd'' \<noteq> None)"
| "cwd_in (JArr _) = Inr False"
| "cwd_in _ = Inl (ErrorObject ''TypeError'' ''Cannot use in operator to search for cwd'')"

text \<open>Truthiness: \<^verbatim>\<open>undefined\<close>, \<^verbatim>\<open>null\<close>, \<^verbatim>\<open>false\<close>, \<^verbatim>\<open>0\<close> and \<^verbatim>\<open>""\<close> are falsy.\<close>

fun truthy :: "json option \<Rightarrow> bool" where
  "truthy None = False"
| "truthy (Some JNull) = False"
| "truthy (Some (JBool b)) = b"
| "truthy (Some (JNum n)) = (n \<noteq> 0)"
| "truthy (Some (JStr s)) = (s \<noteq> [])"
| "truthy (Some (JArr _)) = True"
| "truthy (Some (JObj _)) = True"

subsection \<open>Strings\<close>

text \<open>
  A \<open>char\<close> stands for one code unit of a JavaScript string, so the model covers the
  strings whose code units are below 256. \<^verbatim>\<open>trim\<close> removes the white space and line
  terminators at both ends; below 256 these are the seven characters listed.
\<close>

definition is_space :: "char \<Rightarrow> bool" where
  "is_space c = (c \<in> set [CHR 0x09, CHR 0x0A, CHR 0x0B, CHR 0x0C, CHR 0x0D, CHR 0x20, CHR 0xA0])"

definition trim :: "string \<Rightarrow> string" where
  "trim s = rev (dropWhile is_space (rev (dropWhile is_space s)))"

definition startsWith :: "string \<Rightarrow> string \<Rightarrow> bool" where
  "startsWith s p = (take (length p) s = p)"

fun join_with :: "string \<Rightarrow> string list \<Rightarrow> string" where
  "join_with sep [] = []"
| "join_with sep [x] = x"
| "join_with sep (x # y # ys) = x @ sep @ join_with sep (y # ys)"

text \<open>
  \<^verbatim>\<open>ToString(v)\<close>, as \<^verbatim>\<open>Array.prototype.join\<close> applies it to an element. A parsed
  object that has a key \<^verbatim>\<open>toString\<close> of its own has there a value that cannot be
  called, and \<^verbatim>\<open>valueOf\<close> gives no primitive either: the conversion throws a
  TypeError. Any other object prints as \<^verbatim>\<open>[object Object]\<close>. An array prints as its
  elements joined by commas, converted in order, \<^verbatim>\<open>null\<close> as the empty string; the
  first element that throws makes the array throw. How a number is printed is the
  argument \<open>num\<close>.
\<close>

fun to_string :: "(rat \<Rightarrow> string) \<Rightarrow> json \<Rightarrow> thrown + string"
  and elements_strings :: "(rat \<Rightarrow> string) \<Rightarrow> json list \<Rightarrow> thrown + string list"
where
  "to_string num JNull = Inr ''null''"
| "to_string num (JBool b) = Inr (if b then ''true'' else ''false'')"
| "to_string num (JNum n) = Inr (num n)"
| "to_string num (JStr s) = Inr s"
| "to_string num (JArr xs) =
     (case elements_strings num xs of
        Inl e \<Rightarrow> Inl e
      | Inr strings \<Rightarrow> Inr (join_with '','' strings))"
| "to_string num (JObj kvs) =
     (if map_of kvs ''toString'' \<noteq> None
      then Inl (ErrorObject ''TypeError'' ''Cannot convert object to primitive value'')
      else Inr ''[object Object]'')"
| "elements_strings num [] = Inr []"
| "elements_strings num (x # xs) =
     (case (if x = JNull then Inr [] else to_string num x) of
        Inl e \<Rightarrow> Inl e
      | Inr s \<Rightarrow>
          (case elements_strings num xs of
             Inl e \<Rightarrow> Inl e
           | Inr strings \<Rightarrow> Inr (s # strings)))"

text \<open>
  The strings \<^verbatim>\<open>join\<close> makes of the elements of an array of property values, in
  order: \<^verbatim>\<open>undefined\<close> and \<^verbatim>\<open>null\<close> give the empty string.
\<close>

fun element_string :: "(rat \<Rightarrow> string) \<Rightarrow> json option \<Rightarrow> thrown + string" where
  "element_string num None = Inr []"
| "element_string num (Some JNull) = Inr []"
| "element_string num (Some v) = to_string num v"

fun element_strings :: "(rat \<Rightarrow> string) \<Rightarrow> json option list \<Rightarrow> thrown + string list" where
  "element_strings num [] = Inr []"
| "element_strings num (v # vs) =
     (case element_string num v of
        Inl e \<Rightarrow> Inl e
      | Inr s \<Rightarrow>
          (case element_strings num vs of
             Inl e \<Rightarrow> Inl e
           | Inr strings \<Rightarrow> Inr (s # strings)))"

subsection \<open>What the module imports\<close>

text \<open>
  The functions the module imports or finds in the runtime, none of them among the
  sources, are arguments: \<^verbatim>\<open>JSON.parse\<close> (\<open>None\<close> when it throws a SyntaxError),
  \<^verbatim>\<open>isCommandOutputContent\<close> and \<^verbatim>\<open>sanitizeDisplayContent\<close> of the content sanitizer,
  the type guard \<^verbatim>\<open>isTextContent\<close>, the printing of numbers, and what
  \<^verbatim>\<open>new Date().toISOString()\<close> returns during the call.
\<close>

record extraction_env =
  JSON_parse :: "string \<Rightarrow> json option"
  isCommandOutputContent :: "string \<Rightarrow> bool"
  sanitizeDisplayContent :: "string \<Rightarrow> string"
  isTextContent :: "json \<Rightarrow> bool"
  numberToString :: "rat \<Rightarrow> string"
  newDateISO :: string

text \<open>
  What a read stream delivers to \<^verbatim>\<open>readline\<close>: the lines of the file, and then either
  the end of the file or an error, which the \<^verbatim>\<open>for await\<close> loop throws. The file
  system provider is an argument too: \<^verbatim>\<open>exists\<close> and \<^verbatim>\<open>createReadStream\<close>.
\<close>

record file_stream =
  stream_lines :: "string list"
  stream_error :: "thrown option"

record fs_provider =
  fs_exists :: "string \<Rightarrow> bool"
  createReadStream :: "string \<Rightarrow> file_stream"

subsection \<open>extractCwd\<close>

text \<open>
  The loop inside the \<^verbatim>\<open>try\<close>: \<open>Inl\<close> is what it throws, \<open>Inr (Some cwd)\<close> the
  \<^verbatim>\<open>return entry.cwd\<close>, \<open>Inr None\<close> the end of the loop.
\<close>

fun cwd_loop :: "extraction_env \<Rightarrow> string list \<Rightarrow> thrown option \<Rightarrow> thrown + json option" where
  "cwd_loop env [] err = (case err of Some e \<Rightarrow> Inl e | None \<Rightarrow> Inr None)"
| "cwd_loop env (line # rest) err =
     (if trim line = [] then cwd_loop env rest err
      else
        (case JSON_parse env line of
           None \<Rightarrow> Inl (ErrorObject ''SyntaxError'' line)
         | Some entry \<Rightarrow>
             (case cwd_in entry of
                Inl e \<Rightarrow> Inl e
              | Inr has_cwd \<Rightarrow>
                  if has_cwd
                  then (case get_prop entry ''cwd'' of
                          Inl e \<Rightarrow> Inl e
                        | Inr cwd \<Rightarrow> if truthy cwd then Inr cwd else cwd_loop env rest err)
                  else cwd_loop env rest err)))"

text \<open>
  The \<^verbatim>\<open>catch\<close> logs the error; the function then returns \<^verbatim>\<open>null\<close> after the
  \<^verbatim>\<open>finally\<close>. The result is \<open>Inl\<close> if the function throws.
\<close>

definition extractCwd :: "fs_provider \<Rightarrow> extraction_env \<Rightarrow> string \<Rightarrow> thrown + json option" where
  "extractCwd fsProvider env filePath =
     (if \<not> fs_exists fsProvider filePath then Inr None
      else
        (let fileStream = createReadStream fsProvider filePath in
         case cwd_loop env (stream_lines fileStream) (stream_error fileStream) of
           Inl error \<Rightarrow> Inr None
         | Inr cwd \<Rightarrow> Inr cwd))"

text \<open>
  A line the loop passes over: a blank line, or a line that parses to an object with
  no truthy \<^verbatim>\<open>cwd\<close> or to an array.
\<close>

definition cwd_skipped :: "extraction_env \<Rightarrow> string \<Rightarrow> bool" where
  "cwd_skipped env line =
     (trim line = [] \<or>
      (case JSON_parse env line of
         Some (JObj kvs) \<Rightarrow> \<not> truthy (map_of kvs ''cwd'')
       | Some (JArr _) \<Rightarrow> True
       | _ \<Rightarrow> False))"

text \<open>A line at which the scan is given up: not blank, and malformed or not an object.\<close>

definition cwd_aborts :: "extraction_env \<Rightarrow> string \<Rightarrow> bool" where
  "cwd_aborts env line =
     (trim line \<noteq> [] \<and>
      (case JSON_parse env line of
         None \<Rightarrow> True
       | Some (JObj _) \<Rightarrow> False
       | Some (JArr _) \<Rightarrow> False
       | Some _ \<Rightarrow> True))"

subsection \<open>extractCommandName\<close>

text \<open>
  \<^verbatim>\<open>/<command-name>\/([^<]+)<\/command-name>/.exec(content)\<close>. At a position where
  \<^verbatim>\<open><command-name>/\<close> starts, the group takes the longest run of characters other than
  \<^verbatim>\<open><\<close>; it must not be empty and the closing tag must follow it (a shorter run
  would be followed by a character other than \<^verbatim>\<open><\<close>). The leftmost position that
  matches wins.
\<close>

definition command_name_at :: "string \<Rightarrow> string option" where
  "command_name_at s =
     (if startsWith s ''<command-name>/''
      then (let rest = drop (length ''<command-name>/'') s;
                name = takeWhile (\<lambda>c. c \<noteq> CHR ''<'') rest;
                after = dropWhile (\<lambda>c. c \<noteq> CHR ''<'') rest
            in if name \<noteq> [] \<and> startsWith after ''</command-name>'' then Some name else None)
      else None)"

fun command_name_search :: "string \<Rightarrow> string option" where
  "command_name_search [] = None"
| "command_name_search (c # cs) =
     (case command_name_at (c # cs) of
        Some name \<Rightarrow> Some name
      | None \<Rightarrow> command_name_search cs)"

definition extractCommandName :: "string \<Rightarrow> string" where
  "extractCommandName content =
     (case command_name_search content of
        Some name \<Rightarrow> ''/'' @ name
      | None \<Rightarrow> ''/command'')"

subsection \<open>extractPreviewFromUserEntry\<close>

record message_preview =
  preview_text :: string
  preview_timestamp :: json
  isCommand :: bool

text \<open>\<^verbatim>\<open>content.filter(isTextContent).map((block) => block.text)\<close>\<close>

fun block_texts :: "json list \<Rightarrow> thrown + json option list" where
  "block_texts [] = Inr []"
| "block_texts (block # blocks) =
     (case get_prop block ''text'' of
        Inl e \<Rightarrow> Inl e
      | Inr t \<Rightarrow> (case block_texts blocks of Inl e \<Rightarrow> Inl e | Inr ts \<Rightarrow> Inr (t # ts)))"

definition extractPreviewFromUserEntry ::
  "extraction_env \<Rightarrow> json \<Rightarrow> thrown + message_preview option"
where
  "extractPreviewFromUserEntry env entry =
     (case get_prop entry ''timestamp'' of
        Inl e \<Rightarrow> Inl e
      | Inr entry_timestamp \<Rightarrow>
     (let timestamp = (case entry_timestamp of
                         None \<Rightarrow> JStr (newDateISO env)
                       | Some JNull \<Rightarrow> JStr (newDateISO env)
                       | Some t \<Rightarrow> t)
      in
      case get_prop entry ''message'' of
        Inl e \<Rightarrow> Inl e
      | Inr message \<Rightarrow>
     (case message of
        None \<Rightarrow> Inr None
      | Some msg \<Rightarrow>
          if \<not> truthy (Some msg) then Inr None
          else
     (case get_prop msg ''content'' of
        Inl e \<Rightarrow> Inl e
      | Inr (Some (JStr content)) \<Rightarrow>
          if isCommandOutputContent env content
             \<or> startsWith content ''[Request interrupted by user''
          then Inr None
          else if startsWith content ''<command-name>''
          then Inr (Some \<lparr> preview_text = extractCommandName content,
                            preview_timestamp = timestamp, isCommand = True \<rparr>)
          else
            (let sanitized = trim (sanitizeDisplayContent env content) in
             if sanitized = [] then Inr None
             else Inr (Some \<lparr> preview_text = take 500 sanitized,
                               preview_timestamp = timestamp, isCommand = False \<rparr>))
      | Inr (Some (JArr content)) \<Rightarrow>
          (case block_texts (filter (isTextContent env) content) of
             Inl e \<Rightarrow> Inl e
           | Inr texts \<Rightarrow>
               (case element_strings (numberToString env) texts of
                  Inl e \<Rightarrow> Inl e
                | Inr strings \<Rightarrow>
               (let textContent = trim (join_with '' '' strings) in
                if textContent = [] \<or> startsWith textContent ''[Request interrupted by user''
                then Inr None
                else if startsWith textContent ''<command-name>''
                then Inr (Some \<lparr> preview_text = extractCommandName textContent,
                                  preview_timestamp = timestamp, isCommand = True \<rparr>)
                else
                  (let sanitized = trim (sanitizeDisplayContent env textContent) in
                   if sanitized = [] then Inr None
                   else Inr (Some \<lparr> preview_text = take 500 sanitized,
                                     preview_timestamp = timestamp, isCommand = False \<rparr>)))))
      | Inr _ \<Rightarrow> Inr None))))"

subsection \<open>extractFirstUserMessagePreview\<close>

text \<open>
  The \<^verbatim>\<open>for await\<close> loop with its two variables \<open>commandFallback\<close> and \<open>linesRead\<close>.
  \<open>Inl\<close> is what the loop throws; \<open>Inr\<close> is what the function returns, from inside the
  loop or, after the loop has ended or was left by \<^verbatim>\<open>break\<close>, as
  \<^verbatim>\<open>return commandFallback\<close>.
\<close>

fun preview_loop ::
  "extraction_env \<Rightarrow> int \<Rightarrow> (string \<times> json) option \<Rightarrow> int \<Rightarrow> string list \<Rightarrow> thrown option
     \<Rightarrow> thrown + (string \<times> json) option"
where
  "preview_loop env safeMaxLines commandFallback linesRead [] err =
     (case err of Some e \<Rightarrow> Inl e | None \<Rightarrow> Inr commandFallback)"
| "preview_loop env safeMaxLines commandFallback linesRead (line # rest) err =
     (if linesRead \<ge> safeMaxLines then Inr commandFallback
      else
        (let trimmed = trim line in
         if trimmed = [] then preview_loop env safeMaxLines commandFallback (linesRead + 1) rest err
         else
           (case JSON_parse env trimmed of
              None \<Rightarrow> preview_loop env safeMaxLines commandFallback (linesRead + 1) rest err
            | Some entry \<Rightarrow>
                (case get_prop entry ''type'' of
                   Inl e \<Rightarrow> Inl e
                 | Inr entry_type \<Rightarrow>
                     if entry_type \<noteq> Some (JStr ''user'')
                     then preview_loop env safeMaxLines commandFallback (linesRead + 1) rest err
                     else
                       (case extractPreviewFromUserEntry env entry of
                          Inl e \<Rightarrow> Inl e
                        | Inr None \<Rightarrow>
                            preview_loop env safeMaxLines commandFallback (linesRead + 1) rest err
                        | Inr (Some preview) \<Rightarrow>
                            if \<not> isCommand preview
                            then Inr (Some (preview_text preview, preview_timestamp preview))
                            else
                              preview_loop env safeMaxLines
                                (case commandFallback of
                                   None \<Rightarrow> Some (preview_text preview, preview_timestamp preview)
                                 | Some fallback \<Rightarrow> Some fallback)
                                (linesRead + 1) rest err)))))"

text \<open>
  The \<^verbatim>\<open>catch\<close> logs and throws the error again. \<open>maxLines\<close> is a whole number.
\<close>

definition extractFirstUserMessagePreview ::
  "fs_provider \<Rightarrow> extraction_env \<Rightarrow> string \<Rightarrow> int \<Rightarrow> thrown + (string \<times> json) option"
where
  "extractFirstUserMessagePreview fsProvider env filePath maxLines =
     (let safeMaxLines = max 1 maxLines;
          fileStream = createReadStream fsProvider filePath
      in case preview_loop env safeMaxLines None 0 (stream_lines fileStream)
                (stream_error fileStream) of
           Inl error \<Rightarrow> Inl error
         | Inr result \<Rightarrow> Inr result)"

subsection \<open>The claim's words about extractFirstUserMessagePreview\<close>

text \<open>
  The lines inspected, what one line contributes (a preview, nothing, or an error
  thrown while the entry is read), and the selection the claim describes over the
  previews of the inspected lines: the first preview that is not a command, else the
  earliest command preview, else nothing.
\<close>

definition inspected :: "int \<Rightarrow> string list \<Rightarrow> string list" where
  "inspected maxLines lines = take (nat (max 1 maxLines)) lines"

definition line_preview :: "extraction_env \<Rightarrow> string \<Rightarrow> thrown + message_preview option" where
  "line_preview env line =
     (if trim line = [] then Inr None
      else
        (case JSON_parse env (trim line) of
           None \<Rightarrow> Inr None
         | Some entry \<Rightarrow>
             (case get_prop entry ''type'' of
                Inl e \<Rightarrow> Inl e
              | Inr entry_type \<Rightarrow>
                  if entry_type \<noteq> Some (JStr ''user'') then Inr None
                  else extractPreviewFromUserEntry env entry)))"

definition previews_of :: "extraction_env \<Rightarrow> string list \<Rightarrow> message_preview list" where
  "previews_of env ls =
     List.map_filter (\<lambda>l. case line_preview env l of Inr (Some p) \<Rightarrow> Some p | _ \<Rightarrow> None) ls"

definition select_preview :: "message_preview list \<Rightarrow> (string \<times> json) option" where
  "select_preview ps =
     (case find (\<lambda>p. \<not> isCommand p) ps of
        Some p \<Rightarrow> Some (preview_text p, preview_timestamp p)
      | None \<Rightarrow> (case ps of [] \<Rightarrow> None | p # _ \<Rightarrow> Some (preview_text p, preview_timestamp p)))"

definition throws :: "extraction_env \<Rightarrow> string \<Rightarrow> bool" where
  "throws env line = (case line_preview env line of Inl _ \<Rightarrow> True | Inr _ \<Rightarrow> False)"

text \<open>
  The loop without its counter, over the lines it is allowed to inspect: used to
  relate the loop to the selection above.
\<close>

fun scan_lines ::
  "extraction_env \<Rightarrow> (string \<times> json) option \<Rightarrow> string list \<Rightarrow> thrown + (string \<times> json) option"
where
  "scan_lines env commandFallback [] = Inr commandFallback"
| "scan_lines env commandFallback (line # rest) =
     (case line_preview env line of
        Inl e \<Rightarrow> Inl e
      | Inr None \<Rightarrow> scan_lines env commandFallback rest
      | Inr (Some p) \<Rightarrow>
          if \<not> isCommand p then Inr (Some (preview_text p, preview_timestamp p))
          else scan_lines env
                 (case commandFallback of
                    None \<Rightarrow> Some (preview_text p, preview_timestamp p)
                  | Some fallback \<Rightarrow> Some fallback)
                 rest)"

subsection \<open>Concrete inputs\<close>

text \<open>
  An instance of the imported functions: \<open>sample_parse\<close> gives for each of a few lines
  the value \<^verbatim>\<open>JSON.parse\<close> gives for it, and rejects every other line as malformed.
\<close>

definition line_cwd :: string where
  \<open>line_cwd = ''{"cwd":"/proj"}''\<close>

definition line_empty_cwd :: string where
  \<open>line_empty_cwd = ''{"cwd":""}''\<close>

definition line_user :: string where
  \<open>line_user = ''{"type":"user","message":{"content":"hello"}}''\<close>

definition line_command :: string where
  \<open>line_command = ''{"type":"user","message":{"content":"<command-name>/clear</command-name>"}}''\<close>

definition line_summary :: string where
  \<open>line_summary = ''{"type":"summary"}''\<close>

definition line_text_object :: string where
  \<open>line_text_object =
     ''{"type":"user","message":{"content":[{"type":"text","text":{"toString":1}}]}}''\<close>

definition sample_parse :: "string \<Rightarrow> json option" where
  "sample_parse s =
     (if s = ''null'' then Some JNull
      else if s = ''5'' then Some (JNum 5)
      else if s = line_cwd then Some (JObj [(''cwd'', JStr ''/proj'')])
      else if s = line_empty_cwd then Some (JObj [(''cwd'', JStr [])])
      else if s = line_user
      then Some (JObj [(''type'', JStr ''user''),
                       (''message'', JObj [(''content'', JStr ''hello'')])])
      else if s = line_command
      then Some (JObj [(''type'', JStr ''user''),
                       (''message'',
                        JObj [(''content'', JStr ''<command-name>/clear</command-name>'')])])
      else if s = line_summary then Some (JObj [(''type'', JStr ''summary'')])
      else if s = line_text_object
      then Some (JObj [(''type'', JStr ''user''),
                       (''message'',
                        JObj [(''content'',
                               JArr [JObj [(''type'', JStr ''text''),
                                           (''text'', JObj [(''toString'', JNum 1)])]])])])
      else None)"

definition sample_env :: extraction_env where
  "sample_env =
     \<lparr> JSON_parse = sample_parse,
       isCommandOutputContent = (\<lambda>s. startsWith s ''<local-command-stdout>''),
       sanitizeDisplayContent = (\<lambda>s. s),
       isTextContent = (\<lambda>block. get_prop block ''type'' = Inr (Some (JStr ''text''))),
       numberToString = (\<lambda>n. ''0''),
       newDateISO = ''2026-01-01T00:00:00.000Z'' \<rparr>"

text \<open>A provider with the one file \<^verbatim>\<open>session.jsonl\<close>, read without error.\<close>

definition sample_fs :: "string list \<Rightarrow> fs_provider" where
  "sample_fs lines =
     \<lparr> fs_exists = (\<lambda>p. p = ''session.jsonl''),
       createReadStream = (\<lambda>p.
         if p = ''session.jsonl'' then \<lparr> stream_lines = lines, stream_error = None \<rparr>
         else \<lparr> stream_lines = [], stream_error = Some (ErrorObject ''Error'' ''ENOENT'') \<rparr>) \<rparr>"

section \<open>Results: the context IPC handlers\<close>

lemma handle_CONTEXT_LIST_cases:
  "handle_CONTEXT_LIST rl w =
     (case rl w of (w1, Inl e) \<Rightarrow> (w1, Inr (Failure (message_of e)))
                 | (w1, Inr v) \<Rightarrow> (w1, Inr (Success v)))"
  by (simp add: handle_CONTEXT_LIST_def try_catch_def js_bind_def js_return_def
      split: prod.splits sum.splits)

lemma handle_CONTEXT_GET_ACTIVE_cases:
  "handle_CONTEXT_GET_ACTIVE rg w =
     (case rg w of (w1, Inl e) \<Rightarrow> (w1, Inr (Failure (message_of e)))
                 | (w1, Inr v) \<Rightarrow> (w1, Inr (Success v)))"
  by (simp add: handle_CONTEXT_GET_ACTIVE_def try_catch_def js_bind_def js_return_def
      split: prod.splits sum.splits)

lemma handle_CONTEXT_SWITCH_cases:
  "handle_CONTEXT_SWITCH rs cb i w =
     (case rs i w of
        (w1, Inl e) \<Rightarrow> (w1, Inr (Failure (message_of e)))
      | (w1, Inr (previous, current)) \<Rightarrow>
          (case cb current w1 of
             (w2, Inl e) \<Rightarrow> (w2, Inr (Failure (message_of e)))
           | (w2, Inr _) \<Rightarrow> (w2, Inr (Success i))))"
  by (simp add: handle_CONTEXT_SWITCH_def try_catch_def js_bind_def js_return_def
      split: prod.splits sum.splits)

lemma ipc_context_switch_cases:
  "ipc_context_switch attempt i w =
     (case registry_switch attempt i w of
        (w1, Inl e) \<Rightarrow> (w1, Inr (Failure (message_of e)))
      | (w1, Inr (previous, current)) \<Rightarrow> (onContextSwitched current w1, Inr (Success i)))"
  by (simp add: ipc_context_switch_def handle_CONTEXT_SWITCH_cases js_step_def
      split: prod.splits sum.splits)

text \<open>
  Claim C3. Whatever the registry's methods and the callback do, each of the three
  handlers returns and does not throw (its result is \<open>Inr\<close>): the reply is
  \<open>Success data\<close> when the registry's call returns, with the requested id as data for
  the switch, and \<open>Failure message\<close> with the message of the thrown value when the
  registry's call throws, or when the switch's callback throws.
\<close>

theorem handlers_reply_with_envelope:
  "(\<exists>w' r. handle_CONTEXT_LIST rl w = (w', Inr r)
      \<and> (\<forall>w1 e. rl w = (w1, Inl e) \<longrightarrow> w' = w1 \<and> r = Failure (message_of e))
      \<and> (\<forall>w1 v. rl w = (w1, Inr v) \<longrightarrow> w' = w1 \<and> r = Success v))
   \<and> (\<exists>w' r. handle_CONTEXT_GET_ACTIVE rg w = (w', Inr r)
      \<and> (\<forall>w1 e. rg w = (w1, Inl e) \<longrightarrow> w' = w1 \<and> r = Failure (message_of e))
      \<and> (\<forall>w1 v. rg w = (w1, Inr v) \<longrightarrow> w' = w1 \<and> r = Success v))
   \<and> (\<exists>w' r. handle_CONTEXT_SWITCH rs cb i w = (w', Inr r)
      \<and> (\<forall>w1 e. rs i w = (w1, Inl e) \<longrightarrow> w' = w1 \<and> r = Failure (message_of e))
      \<and> (\<forall>w1 p c w2 e. rs i w = (w1, Inr (p, c)) \<and> cb c w1 = (w2, Inl e)
             \<longrightarrow> w' = w2 \<and> r = Failure (message_of e))
      \<and> (\<forall>w1 p c w2 u. rs i w = (w1, Inr (p, c)) \<and> cb c w1 = (w2, Inr u)
             \<longrightarrow> w' = w2 \<and> r = Success i))"
  apply (intro conjI)
    apply (cases "rl w"; simp add: handle_CONTEXT_LIST_cases split: sum.splits)
   apply (cases "rg w"; simp add: handle_CONTEXT_GET_ACTIVE_cases split: sum.splits)
  apply (cases "rs i w"; simp add: handle_CONTEXT_SWITCH_cases split: sum.splits prod.splits)
  done

section \<open>Results: the main process\<close>

lemma remove_last_simps [simp]:
  "remove_last x [] = []"
  "remove_last x [x] = []"
  "y \<noteq> x \<Longrightarrow> remove_last x [x, y] = [y]"
  "y \<noteq> x \<Longrightarrow> remove_last x [y] = [y]"
  by (simp_all add: remove_last_def)

lemmas wire_defs = wire_states_def wireFileWatcherEvents_def cleanup_fileChange_def
  cleanup_todoChange_def wire_fileChange_def wire_todoChange_def fileWatcher_on_def
  fileWatcher_off_def

lemma find_context_id: "find_context i w = Some c \<Longrightarrow> ctx_id c = i"
  by (auto simp: find_context_def find_Some_iff)

lemma registry_switch_Inl:
  "registry_switch attempt i w = (w1, Inl e) \<Longrightarrow> w1 = w\<lparr>connections := connections w1\<rparr>"
  by (auto simp: registry_switch_def split: option.splits if_splits)

lemma wire_when_wired:
  "wired_to c w \<Longrightarrow> fileChangeCleanup w = Some (c, h1) \<Longrightarrow> todoChangeCleanup w = Some (c, h2) \<Longrightarrow>
   wireFileWatcherEvents ctx w =
     w\<lparr>attached := [(ctx_id ctx, FileChange, FileChangeHandler (nextClosure w)),
                    (ctx_id ctx, TodoChange, TodoChangeHandler (Suc (nextClosure w)))],
       fileChangeCleanup := Some (ctx_id ctx, FileChangeHandler (nextClosure w)),
       todoChangeCleanup := Some (ctx_id ctx, TodoChangeHandler (Suc (nextClosure w))),
       nextClosure := Suc (Suc (nextClosure w)),
       calls := calls w @ [Off c FileChange h1, Off c TodoChange h2,
          On (ctx_id ctx) FileChange (FileChangeHandler (nextClosure w)),
          On (ctx_id ctx) TodoChange (TodoChangeHandler (Suc (nextClosure w)))]\<rparr>"
  by (simp add: wired_to_def wire_defs Let_def)

text \<open>The concrete states, evaluated.\<close>

lemma initializeServices_initial_world:
  "initializeServices initial_world =
     (\<lparr> mainWindow = None, contexts = [localContext], activeContextId = ''local'',
        connections = [], stateChangeListeners = [ForwardToRenderer],
        attached = [(''local'', FileChange, FileChangeHandler 0),
                    (''local'', TodoChange, TodoChangeHandler 1)],
        fileChangeCleanup = Some (''local'', FileChangeHandler 0),
        todoChangeCleanup = Some (''local'', TodoChangeHandler 1),
        nextClosure = 2, sent = [],
        calls = [RegisterContext ''local'', Start ''local'', SetNotificationManager ''local'',
                 On ''local'' FileChange (FileChangeHandler 0),
                 On ''local'' TodoChange (TodoChangeHandler 1),
                 InitializeIpcHandlers, OnStateChange] \<rparr>, Inr ())"
  by (simp add: initializeServices_def js_bind_def js_step_def new_SshConnectionManager_def
      new_ServiceContextRegistry_def registry_registerContext_def find_context_def
      context_start_def fileWatcher_setNotificationManager_def wire_defs Let_def
      initializeIpcHandlers_def sshConnectionManager_on_state_change_def localContext_def
      initial_world_def numeral_2_eq_2)

lemma ready_world_eq:
  "ready_world =
     \<lparr> mainWindow = Some False, contexts = [localContext], activeContextId = ''local'',
       connections = [], stateChangeListeners = [ForwardToRenderer],
       attached = [(''local'', FileChange, FileChangeHandler 0),
                   (''local'', TodoChange, TodoChangeHandler 1)],
       fileChangeCleanup = Some (''local'', FileChangeHandler 0),
       todoChangeCleanup = Some (''local'', TodoChangeHandler 1),
       nextClosure = 2, sent = [],
       calls = [RegisterContext ''local'', Start ''local'', SetNotificationManager ''local'',
                On ''local'' FileChange (FileChangeHandler 0),
                On ''local'' TodoChange (TodoChangeHandler 1),
                InitializeIpcHandlers, OnStateChange] \<rparr>"
  by (simp add: ready_world_def initializeServices_initial_world createWindow_def)

lemma remote_world_eq:
  "remote_world = ready_world\<lparr>contexts := [localContext, sshContext],
     calls := calls ready_world @ [RegisterContext ''ssh-host1'']\<rparr>"
  by (simp add: remote_world_def registry_registerContext_def find_context_def ready_world_eq
      localContext_def sshContext_def)

text \<open>
  The wiring after startup: the state reached by \<^verbatim>\<open>initializeServices\<close> and the
  creation of the window is wired to the active context, and every event keeps it so.
\<close>

lemma wired_to_wiring_ok: "wired_to c w \<Longrightarrow> wiring_ok w"
  by (auto simp: wired_to_def wiring_ok_def cleanup_listeners_def split: option.splits)

lemma wiring_ok_initial_world: "wiring_ok initial_world"
  by (simp add: wiring_ok_def cleanup_listeners_def initial_world_def)

lemma wired_to_ready_world: "wired_to (activeContextId ready_world) ready_world"
  by (simp add: wired_to_def ready_world_eq)

lemma wired_to_wire: "wiring_ok w \<Longrightarrow> wired_to (ctx_id ctx) (wireFileWatcherEvents ctx w)"
  by (cases "fileChangeCleanup w"; cases "todoChangeCleanup w")
     (auto simp: wiring_ok_def cleanup_listeners_def wire_defs wired_to_def Let_def
        split: if_splits)

lemma run_handler_wiring [simp]:
  "attached (run_handler h event w) = attached w"
  "fileChangeCleanup (run_handler h event w) = fileChangeCleanup w"
  "todoChangeCleanup (run_handler h event w) = todoChangeCleanup w"
  "activeContextId (run_handler h event w) = activeContextId w"
  by (cases h; simp add: webContents_send_def)+

lemma fold_run_handler_wiring [simp]:
  "attached (fold (\<lambda>h. run_handler h event) hs w) = attached w"
  "fileChangeCleanup (fold (\<lambda>h. run_handler h event) hs w) = fileChangeCleanup w"
  "todoChangeCleanup (fold (\<lambda>h. run_handler h event) hs w) = todoChangeCleanup w"
  "activeContextId (fold (\<lambda>h. run_handler h event) hs w) = activeContextId w"
  by (induction hs arbitrary: w; simp)+

lemma fold_ssh_listener_wiring [simp]:
  "attached (fold (\<lambda>l. run_ssh_listener l status) ls w) = attached w"
  "fileChangeCleanup (fold (\<lambda>l. run_ssh_listener l status) ls w) = fileChangeCleanup w"
  "todoChangeCleanup (fold (\<lambda>l. run_ssh_listener l status) ls w) = todoChangeCleanup w"
  "activeContextId (fold (\<lambda>l. run_ssh_listener l status) ls w) = activeContextId w"
proof (induction ls arbitrary: w)
  case Nil
  { case 1 show ?case by simp }
  { case 2 show ?case by simp }
  { case 3 show ?case by simp }
  { case 4 show ?case by simp }
next
  case (Cons l ls)
  { case 1 show ?case by (cases l) (simp add: Cons webContents_send_def) }
  { case 2 show ?case by (cases l) (simp add: Cons webContents_send_def) }
  { case 3 show ?case by (cases l) (simp add: Cons webContents_send_def) }
  { case 4 show ?case by (cases l) (simp add: Cons webContents_send_def) }
qed

lemma wired_to_cong:
  "attached w' = attached w \<Longrightarrow> fileChangeCleanup w' = fileChangeCleanup w \<Longrightarrow>
   todoChangeCleanup w' = todoChangeCleanup w \<Longrightarrow> wired_to c w' = wired_to c w"
  by (simp add: wired_to_def split: option.splits)

lemma wiring_ok_cong:
  "attached w' = attached w \<Longrightarrow> fileChangeCleanup w' = fileChangeCleanup w \<Longrightarrow>
   todoChangeCleanup w' = todoChangeCleanup w \<Longrightarrow> wiring_ok w' = wiring_ok w"
  by (simp add: wiring_ok_def cleanup_listeners_def)

lemma onContextSwitched_wiring:
  "attached (onContextSwitched c w) = attached (wireFileWatcherEvents c w)"
  "fileChangeCleanup (onContextSwitched c w) = fileChangeCleanup (wireFileWatcherEvents c w)"
  "todoChangeCleanup (onContextSwitched c w) = todoChangeCleanup (wireFileWatcherEvents c w)"
  "activeContextId (onContextSwitched c w) = activeContextId w"
  by (simp_all add: onContextSwitched_def Let_def webContents_send_def wire_defs
      split: option.splits)

lemma wired_to_switch:
  assumes "wired_to (activeContextId w) w"
  shows "wired_to (activeContextId (fst (ipc_context_switch attempt targetId w)))
           (fst (ipc_context_switch attempt targetId w))"
proof (cases "registry_switch attempt targetId w")
  case (Pair w1 r)
  show ?thesis
  proof (cases r)
    case (Inl e)
    with Pair have "w1 = w\<lparr>connections := connections w1\<rparr>" using registry_switch_Inl by blast
    then have "attached w1 = attached w" "fileChangeCleanup w1 = fileChangeCleanup w"
      "todoChangeCleanup w1 = todoChangeCleanup w" "activeContextId w1 = activeContextId w"
      by (metis world.select_convs world.surjective world.update_convs)+
    with assms Pair Inl show ?thesis
      by (simp add: ipc_context_switch_cases wired_to_cong[of w1 w])
  next
    case (Inr pc)
    obtain previous current where pc: "pc = (previous, current)" by (cases pc)
    from Pair Inr pc have
      w1: "attached w1 = attached w" "fileChangeCleanup w1 = fileChangeCleanup w"
          "todoChangeCleanup w1 = todoChangeCleanup w"
      and act: "activeContextId w1 = ctx_id current"
      by (auto simp: registry_switch_def find_context_id split: option.splits if_splits)
    from assms have "wiring_ok w" by (rule wired_to_wiring_ok)
    then have "wiring_ok w1" using wiring_ok_cong[OF w1] by simp
    from wired_to_wire[OF this, of current]
    have "wired_to (ctx_id current) (onContextSwitched current w1)"
      using wired_to_cong[OF onContextSwitched_wiring(1-3), of "ctx_id current" current w1]
      by simp
    moreover have "activeContextId (onContextSwitched current w1) = ctx_id current"
      using act by (simp add: onContextSwitched_wiring)
    ultimately show ?thesis using Pair Inr pc by (simp add: ipc_context_switch_cases)
  qed
qed

lemma wired_to_apply_event:
  "wired_to (activeContextId w) w \<Longrightarrow>
   wired_to (activeContextId (apply_event ev w)) (apply_event ev w)"
proof (cases ev)
  case (SwitchRequested targetId attempt)
  assume "wired_to (activeContextId w) w"
  then show ?thesis using SwitchRequested wired_to_switch by simp
qed (auto simp: wired_to_def createWindow_def window_closed_def registry_registerContext_def
      fileWatcher_emit_def emit_state_change_def split: option.splits)

lemma wired_to_run:
  "wired_to (activeContextId w) w \<Longrightarrow> wired_to (activeContextId (run evs w)) (run evs w)"
  unfolding run_def by (induction evs arbitrary: w) (simp_all add: wired_to_apply_event)

lemma wired_after_startup:
  "wired_to (activeContextId (run evs ready_world)) (run evs ready_world)"
  using wired_to_ready_world by (rule wired_to_run)

theorem handlers_reply_with_envelope_witness:
  "handle_CONTEXT_LIST registry_list ready_world =
      (ready_world, Inr (Success [(''local'', LocalContext, Disconnected)]))
   \<and> handle_CONTEXT_GET_ACTIVE registry_getActiveContextId ready_world =
      (ready_world, Inr (Success ''local''))
   \<and> handle_CONTEXT_SWITCH (registry_switch None) (\<lambda>c. js_step (onContextSwitched c))
        ''nowhere'' ready_world = (ready_world, Inr (Failure ''nowhere''))
   \<and> handle_CONTEXT_SWITCH (registry_switch None)
        (\<lambda>c w. (w, Inl (NonError ''callback failed''))) ''local'' ready_world
        = (ready_world, Inr (Failure ''callback failed''))
   \<and> handle_CONTEXT_SWITCH (registry_switch None) (\<lambda>c. js_return ())
        ''ssh-host1'' remote_world
        = (remote_world\<lparr>connections := [(''ssh-host1'', Connected)],
             activeContextId := ''ssh-host1''\<rparr>, Inr (Success ''ssh-host1''))"
  using handlers_reply_with_envelope
    [of registry_list ready_world registry_getActiveContextId "registry_switch None"
        "\<lambda>c. js_step (onContextSwitched c)" "''nowhere''"]
    handlers_reply_with_envelope
    [of registry_list ready_world registry_getActiveContextId "registry_switch None"
        "\<lambda>c w. (w, Inl (NonError ''callback failed''))" "''local''"]
    handlers_reply_with_envelope
    [of registry_list remote_world registry_getActiveContextId "registry_switch None"
        "\<lambda>c. js_return ()" "''ssh-host1''"]
  by (auto simp add: registry_list_def registry_getActiveContextId_def registry_switch_def
      find_context_def ready_world_eq remote_world_eq localContext_def sshContext_def
      status_of_def set_status_def js_return_def)

text \<open>
  Claim C1. With the registry modelled from the spec, a switch that fails leaves
  everything but the connection table as it was:
  the registry's contexts and active id, the attached listeners and the two cleanup
  closures, the calls made on watchers (the callback did not run) and the messages
  sent. The reply is \<open>Failure\<close>. A switch to an id that is not registered fails so and
  changes nothing at all; a switch to a remote context that is not connected, whose
  connection attempt fails with \<open>reason\<close>, fails so and records the error of the target.
\<close>

theorem failed_switch_leaves_state:
  "(ipc_context_switch attempt targetId w = (w', Inr (Failure msg)) \<longrightarrow>
      contexts w' = contexts w \<and> activeContextId w' = activeContextId w
      \<and> attached w' = attached w \<and> fileChangeCleanup w' = fileChangeCleanup w
      \<and> todoChangeCleanup w' = todoChangeCleanup w \<and> nextClosure w' = nextClosure w
      \<and> calls w' = calls w \<and> sent w' = sent w \<and> mainWindow w' = mainWindow w)
   \<and> (find_context targetId w = None \<longrightarrow>
        ipc_context_switch attempt targetId w = (w, Inr (Failure targetId)))
   \<and> (find_context targetId w = Some target \<and> targetId \<noteq> activeContextId w
        \<and> find_context (activeContextId w) w = Some previous
        \<and> ctx_type target = RemoteContext
        \<and> status_of targetId (connections w) \<noteq> Connected \<longrightarrow>
        ipc_context_switch (Some reason) targetId w =
          (w\<lparr>connections := set_status targetId (ConnError reason) (connections w)\<rparr>,
           Inr (Failure reason)))"
proof (intro conjI impI)
  assume a: "ipc_context_switch attempt targetId w = (w', Inr (Failure msg))"
  obtain w1 r where r: "registry_switch attempt targetId w = (w1, r)"
    by (cases "registry_switch attempt targetId w")
  from a r obtain e where "r = Inl e" "w' = w1"
    by (cases r) (auto simp: ipc_context_switch_cases)
  with r have "w' = w\<lparr>connections := connections w'\<rparr>"
    using registry_switch_Inl by blast
  then have *: "\<And>f. f (w\<lparr>connections := connections w'\<rparr>) = f w'" by simp
  show "contexts w' = contexts w" using *[of contexts] by simp
  show "activeContextId w' = activeContextId w" using *[of activeContextId] by simp
  show "attached w' = attached w" using *[of attached] by simp
  show "fileChangeCleanup w' = fileChangeCleanup w" using *[of fileChangeCleanup] by simp
  show "todoChangeCleanup w' = todoChangeCleanup w" using *[of todoChangeCleanup] by simp
  show "nextClosure w' = nextClosure w" using *[of nextClosure] by simp
  show "calls w' = calls w" using *[of calls] by simp
  show "sent w' = sent w" using *[of sent] by simp
  show "mainWindow w' = mainWindow w" using *[of mainWindow] by simp
next
  assume "find_context targetId w = None"
  then show "ipc_context_switch attempt targetId w = (w, Inr (Failure targetId))"
    by (simp add: ipc_context_switch_cases registry_switch_def)
next
  assume "find_context targetId w = Some target \<and> targetId \<noteq> activeContextId w
        \<and> find_context (activeContextId w) w = Some previous
        \<and> ctx_type target = RemoteContext
        \<and> status_of targetId (connections w) \<noteq> Connected"
  then show "ipc_context_switch (Some reason) targetId w =
          (w\<lparr>connections := set_status targetId (ConnError reason) (connections w)\<rparr>,
           Inr (Failure reason))"
    by (simp add: ipc_context_switch_cases registry_switch_def)
qed

theorem failed_switch_leaves_state_witness:
  "ipc_context_switch None ''nowhere'' remote_world = (remote_world, Inr (Failure ''nowhere''))
   \<and> ipc_context_switch (Some ''timeout'') ''ssh-host1'' remote_world =
       (remote_world\<lparr>connections := [(''ssh-host1'', ConnError ''timeout'')]\<rparr>,
        Inr (Failure ''timeout''))
   \<and> activeContextId (fst (ipc_context_switch (Some ''timeout'') ''ssh-host1'' remote_world))
       = ''local''
   \<and> attached (fst (ipc_context_switch (Some ''timeout'') ''ssh-host1'' remote_world)) =
       [(''local'', FileChange, FileChangeHandler 0), (''local'', TodoChange, TodoChangeHandler 1)]
   \<and> calls (fst (ipc_context_switch (Some ''timeout'') ''ssh-host1'' remote_world)) =
       calls remote_world"
  using failed_switch_leaves_state
    [of None "''nowhere''" remote_world remote_world "''nowhere''" sshContext localContext
        "''timeout''"]
    failed_switch_leaves_state
    [of "Some ''timeout''" "''ssh-host1''" remote_world
        "remote_world\<lparr>connections := [(''ssh-host1'', ConnError ''timeout'')]\<rparr>"
        "''timeout''" sshContext localContext "''timeout''"]
  by (simp add: find_context_def remote_world_eq ready_world_eq localContext_def sshContext_def
      status_of_def set_status_def)

text \<open>
  Claim C2. In a state whose attached listeners are those of the two cleanup closures,
  on one context, a rewiring pass goes through states in each of which the listeners
  attached belong to at most one context; after the two cleanups and before the first
  new listener is attached, no listener is attached at all; the calls on the watchers
  are the detaches of the old listeners followed by the two attaches on the new
  context; and the state reached is again of that kind, wired to the new context.
  The state the process starts in is of that kind, and so is every state after startup
  (\<open>wiring_ok_initial_world\<close>, \<open>wired_after_startup\<close>, \<open>wired_to_wiring_ok\<close>).
\<close>

theorem rewiring_detaches_before_attaching:
  "wiring_ok w \<Longrightarrow>
     list_all one_context (wire_states ctx w)
     \<and> last (wire_states ctx w) = wireFileWatcherEvents ctx w
     \<and> attached (cleanup_todoChange (cleanup_fileChange w)) = []
     \<and> calls (wireFileWatcherEvents ctx w) =
         calls w @ map (\<lambda>(c, ev, h). Off c ev h) (attached w) @
           [On (ctx_id ctx) FileChange (FileChangeHandler (nextClosure w)),
            On (ctx_id ctx) TodoChange (TodoChangeHandler (Suc (nextClosure w)))]
     \<and> wired_to (ctx_id ctx) (wireFileWatcherEvents ctx w)
     \<and> wiring_ok (wireFileWatcherEvents ctx w)"
  by (cases "fileChangeCleanup w"; cases "todoChangeCleanup w")
     (auto simp: wiring_ok_def one_context_def cleanup_listeners_def wire_defs wired_to_def Let_def
        split: if_splits)

theorem rewiring_detaches_before_attaching_witness:
  "wiring_ok initial_world \<and> wiring_ok remote_world
   \<and> list_all one_context (wire_states localContext initial_world)
   \<and> list_all one_context (wire_states sshContext remote_world)
   \<and> attached (cleanup_todoChange (cleanup_fileChange remote_world)) = []
   \<and> calls (wireFileWatcherEvents sshContext remote_world) =
       calls remote_world @
         [Off ''local'' FileChange (FileChangeHandler 0),
          Off ''local'' TodoChange (TodoChangeHandler 1),
          On ''ssh-host1'' FileChange (FileChangeHandler 2),
          On ''ssh-host1'' TodoChange (TodoChangeHandler 3)]
   \<and> attached (wireFileWatcherEvents sshContext remote_world) =
       [(''ssh-host1'', FileChange, FileChangeHandler 2),
        (''ssh-host1'', TodoChange, TodoChangeHandler 3)]"
proof -
  have a: "wiring_ok initial_world"
    by (simp add: wiring_ok_def cleanup_listeners_def initial_world_def)
  have b: "wiring_ok remote_world"
    by (simp add: wiring_ok_def cleanup_listeners_def remote_world_eq ready_world_eq)
  have c: "attached (wireFileWatcherEvents sshContext remote_world) =
       [(''ssh-host1'', FileChange, FileChangeHandler 2),
        (''ssh-host1'', TodoChange, TodoChangeHandler 3)]"
    by (simp add: wire_defs remote_world_eq ready_world_eq sshContext_def Let_def numeral_3_eq_3
        numeral_2_eq_2)
  show ?thesis
    using a b c rewiring_detaches_before_attaching [OF a, of localContext]
      rewiring_detaches_before_attaching [OF b, of sshContext]
    by (simp add: remote_world_eq ready_world_eq sshContext_def numeral_3_eq_3 numeral_2_eq_2)
qed


text \<open>
  Claim C4, as the code has it. The handler calls the callback after every switch that
  the registry lets succeed, also when the target is the active context. In a state
  wired to the active context, a switch to the active id succeeds and leaves the
  registry and the connection table as they were; the rewiring pass runs all the same:
  the two old listeners are detached and two new closures attached to the same watcher,
  so the sink is wired to the same context for the same two events as before, through
  new handlers, and with a live window the renderer is sent the SSH status and a
  context-changed message.
\<close>

theorem switch_to_active_rewires_same_context:
  "wired_to (activeContextId w) w \<Longrightarrow> find_context (activeContextId w) w = Some current \<Longrightarrow>
   (\<exists>w' h1 h2. ipc_context_switch attempt (activeContextId w) w
        = (w', Inr (Success (activeContextId w)))
      \<and> contexts w' = contexts w \<and> activeContextId w' = activeContextId w
      \<and> connections w' = connections w
      \<and> fileChangeCleanup w = Some (activeContextId w, h1)
      \<and> todoChangeCleanup w = Some (activeContextId w, h2)
      \<and> calls w' = calls w @
           [Off (activeContextId w) FileChange h1, Off (activeContextId w) TodoChange h2,
            On (activeContextId w) FileChange (FileChangeHandler (nextClosure w)),
            On (activeContextId w) TodoChange (TodoChangeHandler (Suc (nextClosure w)))]
      \<and> attached w' =
           [(activeContextId w, FileChange, FileChangeHandler (nextClosure w)),
            (activeContextId w, TodoChange, TodoChangeHandler (Suc (nextClosure w)))]
      \<and> map (\<lambda>(c, ev, _). (c, ev)) (attached w') = map (\<lambda>(c, ev, _). (c, ev)) (attached w)
      \<and> wired_to (activeContextId w) w'
      \<and> sent w' = sent w @
           (if window_live w
            then [SshStatusMsg (connections w),
                  ContextChangedMsg (activeContextId w) (ctx_type current)]
            else []))"
proof -
  assume wd: "wired_to (activeContextId w) w"
    and fc: "find_context (activeContextId w) w = Some current"
  from wd obtain h1 h2 where
    h: "fileChangeCleanup w = Some (activeContextId w, h1)"
       "todoChangeCleanup w = Some (activeContextId w, h2)"
       "attached w = [(activeContextId w, FileChange, h1), (activeContextId w, TodoChange, h2)]"
    by (auto simp: wired_to_def split: option.splits)
  have id: "ctx_id current = activeContextId w" using fc by (rule find_context_id)
  have rs: "registry_switch attempt (activeContextId w) w = (w, Inr (current, current))"
    using fc by (simp add: registry_switch_def)
  note ww = wire_when_wired[OF wd h(1) h(2), of current]
  show ?thesis
    using h id
    by (simp add: ipc_context_switch_cases rs onContextSwitched_def ww Let_def
        window_live_def webContents_send_def wired_to_def)
qed

theorem switch_to_active_rewires_same_context_witness:
  "wired_to (activeContextId ready_world) ready_world
   \<and> find_context (activeContextId ready_world) ready_world = Some localContext
   \<and> snd (ipc_context_switch None ''local'' ready_world) = Inr (Success ''local'')
   \<and> activeContextId (fst (ipc_context_switch None ''local'' ready_world)) = ''local''
   \<and> contexts (fst (ipc_context_switch None ''local'' ready_world)) = [localContext]
   \<and> sent (fst (ipc_context_switch None ''local'' ready_world)) =
        [SshStatusMsg [], ContextChangedMsg ''local'' LocalContext]"
proof -
  have a: "wired_to (activeContextId ready_world) ready_world"
    by (simp add: wired_to_def ready_world_eq)
  have b: "find_context (activeContextId ready_world) ready_world = Some localContext"
    by (simp add: find_context_def ready_world_eq localContext_def)
  have c: "activeContextId ready_world = ''local''" by (simp add: ready_world_eq)
  show ?thesis
    using a b switch_to_active_rewires_same_context [OF a b, of None]
    by (auto simp: c) (simp_all add: ready_world_eq window_live_def localContext_def)
qed

text \<open>
  The claim as stated fails in the state reached at startup: the switch to
  \<^verbatim>\<open>"local"\<close>, the active context, succeeds, and it detaches the two listeners and
  attaches two new ones; the listeners attached afterwards are not those attached before.
\<close>

theorem switch_to_active_is_not_a_noop:
  "activeContextId ready_world = ''local''
   \<and> snd (ipc_context_switch None ''local'' ready_world) = Inr (Success ''local'')
   \<and> calls (fst (ipc_context_switch None ''local'' ready_world)) =
        calls ready_world @
          [Off ''local'' FileChange (FileChangeHandler 0),
           Off ''local'' TodoChange (TodoChangeHandler 1),
           On ''local'' FileChange (FileChangeHandler 2),
           On ''local'' TodoChange (TodoChangeHandler 3)]
   \<and> attached (fst (ipc_context_switch None ''local'' ready_world)) \<noteq> attached ready_world
   \<and> fst (ipc_context_switch None ''local'' ready_world) \<noteq> ready_world"
proof -
  have r: "registry_switch None ''local'' ready_world
             = (ready_world, Inr (localContext, localContext))"
    by (simp add: registry_switch_def find_context_def ready_world_eq localContext_def)
  have w: "wireFileWatcherEvents localContext ready_world =
     ready_world\<lparr>attached := [(''local'', FileChange, FileChangeHandler 2),
                    (''local'', TodoChange, TodoChangeHandler 3)],
       fileChangeCleanup := Some (''local'', FileChangeHandler 2),
       todoChangeCleanup := Some (''local'', TodoChangeHandler 3),
       nextClosure := 4,
       calls := calls ready_world @ [Off ''local'' FileChange (FileChangeHandler 0),
          Off ''local'' TodoChange (TodoChangeHandler 1),
          On ''local'' FileChange (FileChangeHandler 2),
          On ''local'' TodoChange (TodoChangeHandler 3)]\<rparr>"
    by (simp add: wire_defs ready_world_eq localContext_def Let_def numeral_3_eq_3
        numeral_2_eq_2 eval_nat_numeral)
  have s: "fst (ipc_context_switch None ''local'' ready_world)
             = onContextSwitched localContext ready_world"
    "snd (ipc_context_switch None ''local'' ready_world) = Inr (Success ''local'')"
    by (simp_all add: ipc_context_switch_cases r)
  have a: "attached (onContextSwitched localContext ready_world) =
      [(''local'', FileChange, FileChangeHandler 2), (''local'', TodoChange, TodoChangeHandler 3)]"
    and c: "calls (onContextSwitched localContext ready_world) =
        calls ready_world @
          [Off ''local'' FileChange (FileChangeHandler 0),
           Off ''local'' TodoChange (TodoChangeHandler 1),
           On ''local'' FileChange (FileChangeHandler 2),
           On ''local'' TodoChange (TodoChangeHandler 3)]"
    by (simp_all add: onContextSwitched_def w Let_def webContents_send_def window_live_def)
  have n: "attached (onContextSwitched localContext ready_world) \<noteq> attached ready_world"
    unfolding a by (simp add: ready_world_eq)
  then have "onContextSwitched localContext ready_world \<noteq> ready_world" by auto
  with s a c n show ?thesis by (simp add: ready_world_eq)
qed

text \<open>
  Claim C6. Started in a state with no cleanup closure set and no listener attached,
  as the process starts, \<^verbatim>\<open>initializeServices\<close> returns, and the calls it makes are, in
  this order: register the context \<^verbatim>\<open>"local"\<close>, start it (once), hand its watcher the
  notification manager, attach the file-change listener, attach the todo-change
  listener, initialise the IPC handlers (only then can a switch request reach the
  registry), subscribe to the connection manager's state changes. The registry then
  holds the context \<^verbatim>\<open>"local"\<close>, which is the active one. The two listeners do wire
  the watcher to the notification sink: nothing was sent during startup, and once the
  window is created a file-change event and a todo-change event emitted by the watcher
  of \<^verbatim>\<open>"local"\<close> are each sent to the renderer, once, with the event as emitted.
\<close>

theorem initializeServices_registers_starts_wires:
  "fileChangeCleanup w0 = None \<Longrightarrow> todoChangeCleanup w0 = None \<Longrightarrow> attached w0 = [] \<Longrightarrow>
   (\<exists>w. initializeServices w0 = (w, Inr ())
      \<and> calls w = calls w0 @
          [RegisterContext ''local'', Start ''local'', SetNotificationManager ''local'',
           On ''local'' FileChange (FileChangeHandler (nextClosure w0)),
           On ''local'' TodoChange (TodoChangeHandler (Suc (nextClosure w0))),
           InitializeIpcHandlers, OnStateChange]
      \<and> contexts w = [localContext] \<and> ctx_id localContext = ''local''
      \<and> activeContextId w = ''local''
      \<and> count_list (drop (length (calls w0)) (calls w)) (Start ''local'') = 1
      \<and> attached w =
          [(''local'', FileChange, FileChangeHandler (nextClosure w0)),
           (''local'', TodoChange, TodoChangeHandler (Suc (nextClosure w0)))]
      \<and> stateChangeListeners w = [ForwardToRenderer]
      \<and> sent w = sent w0
      \<and> sent (fileWatcher_emit ''local'' FileChange file_event (createWindow w))
            = sent w0 @ [FileChangeMsg file_event]
      \<and> sent (fileWatcher_emit ''local'' TodoChange todo_event (createWindow w))
            = sent w0 @ [TodoChangeMsg todo_event])"
  by (simp add: initializeServices_def js_bind_def js_step_def new_SshConnectionManager_def
      new_ServiceContextRegistry_def registry_registerContext_def find_context_def
      context_start_def fileWatcher_setNotificationManager_def wire_defs Let_def
      initializeIpcHandlers_def sshConnectionManager_on_state_change_def localContext_def
      fileWatcher_emit_def listeners_of_def createWindow_def window_live_def
      webContents_send_def)

theorem initializeServices_registers_starts_wires_witness:
  "fileChangeCleanup initial_world = None \<and> todoChangeCleanup initial_world = None
   \<and> attached initial_world = []
   \<and> snd (initializeServices initial_world) = Inr ()
   \<and> calls (fst (initializeServices initial_world)) =
       [RegisterContext ''local'', Start ''local'', SetNotificationManager ''local'',
        On ''local'' FileChange (FileChangeHandler 0),
        On ''local'' TodoChange (TodoChangeHandler 1),
        InitializeIpcHandlers, OnStateChange]
   \<and> activeContextId (fst (initializeServices initial_world)) = ''local''
   \<and> sent (fileWatcher_emit ''local'' FileChange ''created a.jsonl'' ready_world)
        = [FileChangeMsg ''created a.jsonl'']
   \<and> sent (fileWatcher_emit ''local'' TodoChange ''todo changed'' ready_world)
        = [TodoChangeMsg ''todo changed'']"
proof -
  have a: "fileChangeCleanup initial_world = None" and b: "todoChangeCleanup initial_world = None"
    and c: "attached initial_world = []"
    by (simp_all add: initial_world_def)
  have d: "sent initial_world = []" "calls initial_world = []" "nextClosure initial_world = 0"
    by (simp_all add: initial_world_def)
  show ?thesis
    using a b c d
      initializeServices_registers_starts_wires [OF a b c,
        where file_event = "''created a.jsonl''" and todo_event = "''todo changed''"]
    by (auto simp: ready_world_def)
qed

text \<open>
  Claim C7, as the code has it. The listener registered on the connection manager
  forwards a status change to the renderer only when the main window exists and is not
  destroyed: then the status is sent as it is, whatever the active context; otherwise
  nothing is sent. A switch request leaves the listener registered.
\<close>

theorem state_change_forwarded_to_live_window:
  "stateChangeListeners w = [ForwardToRenderer] \<Longrightarrow>
     (window_live w \<longrightarrow>
        emit_state_change status w = w\<lparr>connections := status, sent := sent w @ [SshStatusMsg status]\<rparr>)
   \<and> (\<not> window_live w \<longrightarrow> emit_state_change status w = w\<lparr>connections := status\<rparr>)
   \<and> stateChangeListeners (fst (ipc_context_switch attempt targetId w)) = [ForwardToRenderer]"
  apply (intro conjI impI)
    apply (simp add: emit_state_change_def window_live_def webContents_send_def)
   apply (simp add: emit_state_change_def window_live_def webContents_send_def)
  apply (auto simp add: ipc_context_switch_cases registry_switch_def onContextSwitched_def wire_defs
      Let_def webContents_send_def split: option.splits prod.splits sum.splits)
  done

theorem state_change_forwarded_to_live_window_witness:
  "stateChangeListeners ready_world = [ForwardToRenderer] \<and> window_live ready_world
   \<and> sent (emit_state_change [(''ssh-host1'', Connecting)] ready_world) =
       [SshStatusMsg [(''ssh-host1'', Connecting)]]
   \<and> \<not> window_live (window_closed ready_world)
   \<and> sent (emit_state_change [(''ssh-host1'', Connecting)] (window_closed ready_world)) = []"
proof -
  have a: "stateChangeListeners ready_world = [ForwardToRenderer]"
    and b: "stateChangeListeners (window_closed ready_world) = [ForwardToRenderer]"
    by (simp_all add: ready_world_eq window_closed_def)
  have c: "window_live ready_world" "\<not> window_live (window_closed ready_world)"
    by (simp_all add: ready_world_eq window_closed_def window_live_def)
  show ?thesis
    using a c
      state_change_forwarded_to_live_window [OF a, of "[(''ssh-host1'', Connecting)]" None "''local''"]
      state_change_forwarded_to_live_window [OF b, of "[(''ssh-host1'', Connecting)]" None "''local''"]
    by (simp add: ready_world_eq window_closed_def)
qed

text \<open>
  The claim as stated fails whenever there is no live window. A status change emitted
  right after \<^verbatim>\<open>initializeServices\<close>, before the window is created, finds the listener
  registered and \<^verbatim>\<open>mainWindow\<close> \<^verbatim>\<open>null\<close>; so does one emitted after the window was
  closed. Nothing is sent in either state.
\<close>

theorem state_change_dropped_without_window:
  "stateChangeListeners (fst (initializeServices initial_world)) = [ForwardToRenderer]
   \<and> sent (emit_state_change [(''ssh-host1'', Connected)] (fst (initializeServices initial_world)))
       = []
   \<and> stateChangeListeners (window_closed ready_world) = [ForwardToRenderer]
   \<and> sent (emit_state_change [(''ssh-host1'', Disconnected)] (window_closed ready_world)) = []"
  by (simp add: initializeServices_initial_world emit_state_change_def window_live_def
      ready_world_eq window_closed_def)

section \<open>Results: RankedInjectionList\<close>

lemma mset_insert_by: "mset (insert_by f x ys) = add_mset x (mset ys)"
  by (induction ys) auto

lemma mset_sort_by: "mset (sort_by f xs) = mset xs"
  by (induction xs) (auto simp: sort_by_def mset_insert_by)

lemma set_insert_by: "set (insert_by f x ys) = insert x (set ys)"
  by (induction ys) auto

lemma desc_insert_by:
  "sorted (rev (map estimatedTokens ys)) \<Longrightarrow>
   sorted (rev (map estimatedTokens (insert_by by_tokens_desc x ys)))"
  by (induction ys) (auto simp: by_tokens_desc_def sorted_append set_insert_by)

lemma desc_sort_by: "sorted (rev (map estimatedTokens (sort_by by_tokens_desc xs)))"
proof (induction xs)
  case Nil
  show ?case by (simp add: sort_by_def)
next
  case (Cons x xs)
  then show ?case using desc_insert_by[of "sort_by by_tokens_desc xs" x]
    by (simp add: sort_by_def)
qed

lemma row_tokens_render: "map row_tokens (map render_row xs) = map estimatedTokens xs"
  by (simp add: render_row_def)

text \<open>
  Claim C8. For the array of injections at any address of the heap, the rows rendered
  carry token counts in non-increasing order and are the rows of the given injections,
  each as often as given; the given array, and every array allocated before the call,
  holds afterwards what it held before: the sort worked on the copy.
\<close>

theorem RankedInjectionList_sorted_copy:
  "injections < length h \<Longrightarrow>
   (\<exists>rows h'. RankedInjectionList injections h = (rows, h')
      \<and> non_increasing (map row_tokens rows)
      \<and> mset rows = mset (map render_row (h ! injections))
      \<and> h' ! injections = h ! injections
      \<and> take (length h) h' = h)"
proof -
  assume a: "injections < length h"
  let ?s = "sort_by by_tokens_desc (h ! injections)"
  have r: "RankedInjectionList injections h = (map render_row ?s, h @ [?s])"
    using a by (simp add: RankedInjectionList_def sortedInjections_def spread_copy_def
        array_sort_def nth_append)
  have 1: "non_increasing (map row_tokens (map render_row ?s))"
    unfolding row_tokens_render non_increasing_def by (rule desc_sort_by)
  have 2: "mset (map render_row ?s) = mset (map render_row (h ! injections))"
    using mset_sort_by[of by_tokens_desc "h ! injections"] by (metis mset_map)
  have 3: "(h @ [?s]) ! injections = h ! injections"
    using a by (simp add: nth_append)
  show ?thesis using r 1 2 3 by simp
qed

theorem RankedInjectionList_sorted_copy_witness:
  "(0::nat) < length [three_injections]
   \<and> map row_key (fst (RankedInjectionList 0 [three_injections])) = [''b'', ''a'', ''c'']
   \<and> map row_tokens (fst (RankedInjectionList 0 [three_injections])) = [10, 3, 3]
   \<and> snd (RankedInjectionList 0 [three_injections]) ! 0 = three_injections"
  using RankedInjectionList_sorted_copy [of 0 "[three_injections]"]
  by (simp add: RankedInjectionList_def sortedInjections_def spread_copy_def array_sort_def
      sort_by_def by_tokens_desc_def three_injections_def render_row_def)


section \<open>Results: the concrete inputs of the extraction\<close>

lemmas sample_defs = sample_env_def sample_parse_def sample_fs_def line_cwd_def
  line_empty_cwd_def line_user_def line_command_def line_summary_def line_text_object_def
  trim_def is_space_def startsWith_def

lemma sample_line_previews:
  "line_preview sample_env ''5'' = Inr None"
  "line_preview sample_env ''{oops'' = Inr None"
  "line_preview sample_env line_summary = Inr None"
  "line_preview sample_env line_command =
     Inr (Some \<lparr> preview_text = ''/clear'', preview_timestamp = JStr ''2026-01-01T00:00:00.000Z'',
                  isCommand = True \<rparr>)"
  "line_preview sample_env line_user =
     Inr (Some \<lparr> preview_text = ''hello'', preview_timestamp = JStr ''2026-01-01T00:00:00.000Z'',
                  isCommand = False \<rparr>)"
  "line_preview sample_env ''null''
     = Inl (ErrorObject ''TypeError'' ''Cannot read properties of null: type'')"
  "line_preview sample_env line_text_object
     = Inl (ErrorObject ''TypeError'' ''Cannot convert object to primitive value'')"
  by (simp_all add: line_preview_def sample_defs extractPreviewFromUserEntry_def
      extractCommandName_def command_name_at_def Let_def)

lemma sample_stream:
  "stream_error (createReadStream (sample_fs ls) ''session.jsonl'') = None"
  "stream_lines (createReadStream (sample_fs ls) ''session.jsonl'') = ls"
  by (simp_all add: sample_fs_def)

section \<open>Results: extractCwd\<close>

lemma cwd_loop_skipped:
  "\<forall>l\<in>set pre. cwd_skipped env l \<Longrightarrow> cwd_loop env (pre @ rest) err = cwd_loop env rest err"
proof (induction pre)
  case Nil
  show ?case by simp
next
  case (Cons l pre)
  then have s: "cwd_skipped env l" and r: "\<forall>l\<in>set pre. cwd_skipped env l" by simp_all
  have "cwd_loop env (l # pre @ rest) err = cwd_loop env (pre @ rest) err"
    using s by (auto simp: cwd_skipped_def split: option.splits json.splits)
  then show ?case using Cons.IH[OF r] by simp
qed

lemma cwd_loop_found:
  "trim line \<noteq> [] \<Longrightarrow> JSON_parse env line = Some (JObj kvs) \<Longrightarrow> map_of kvs ''cwd'' = Some cwd
   \<Longrightarrow> truthy (Some cwd) \<Longrightarrow> cwd_loop env (line # post) err = Inr (Some cwd)"
  by simp

lemma cwd_loop_aborts:
  "cwd_aborts env line \<Longrightarrow> \<exists>e. cwd_loop env (line # post) err = Inl e"
  by (auto simp: cwd_aborts_def split: option.splits json.splits)

lemma extractCwd_returns: "\<exists>r. extractCwd fsp env path = Inr r"
  by (simp add: extractCwd_def Let_def split: sum.splits)

text \<open>
  Claim C10, as the code has it. \<^verbatim>\<open>extractCwd\<close> never throws (the provider's two
  methods taken as returning). It returns \<^verbatim>\<open>null\<close> if the file does not exist.
  Otherwise it passes over blank lines and over lines that parse to an object without
  a truthy \<^verbatim>\<open>cwd\<close> or to an array, and returns the \<^verbatim>\<open>cwd\<close> of the first object that has
  a truthy one; it returns \<^verbatim>\<open>null\<close> when it meets before that a line that is not blank
  and is malformed JSON or parses to a value that is not an object (a number, a string,
  a boolean, \<^verbatim>\<open>null\<close>), and when every line is passed over.
\<close>

theorem extractCwd_scan:
  "(\<exists>r. extractCwd fsp env path = Inr r)
   \<and> (\<not> fs_exists fsp path \<longrightarrow> extractCwd fsp env path = Inr None)
   \<and> (fs_exists fsp path \<and> stream_lines (createReadStream fsp path) = pre @ line # post
        \<and> (\<forall>l\<in>set pre. cwd_skipped env l) \<and> trim line \<noteq> []
        \<and> JSON_parse env line = Some (JObj kvs) \<and> map_of kvs ''cwd'' = Some cwd
        \<and> truthy (Some cwd)
      \<longrightarrow> extractCwd fsp env path = Inr (Some cwd))
   \<and> (fs_exists fsp path \<and> stream_lines (createReadStream fsp path) = pre @ line # post
        \<and> (\<forall>l\<in>set pre. cwd_skipped env l) \<and> cwd_aborts env line
      \<longrightarrow> extractCwd fsp env path = Inr None)
   \<and> (fs_exists fsp path \<and> (\<forall>l\<in>set (stream_lines (createReadStream fsp path)). cwd_skipped env l)
      \<longrightarrow> extractCwd fsp env path = Inr None)"
proof (intro conjI impI)
  show "\<exists>r. extractCwd fsp env path = Inr r" by (rule extractCwd_returns)
  show "\<not> fs_exists fsp path \<Longrightarrow> extractCwd fsp env path = Inr None"
    by (simp add: extractCwd_def)
next
  assume a: "fs_exists fsp path \<and> stream_lines (createReadStream fsp path) = pre @ line # post
        \<and> (\<forall>l\<in>set pre. cwd_skipped env l) \<and> trim line \<noteq> []
        \<and> JSON_parse env line = Some (JObj kvs) \<and> map_of kvs ''cwd'' = Some cwd
        \<and> truthy (Some cwd)"
  then have "cwd_loop env (pre @ line # post) (stream_error (createReadStream fsp path))
               = Inr (Some cwd)"
    using cwd_loop_skipped[of pre env "line # post"] cwd_loop_found[of line env kvs cwd post]
    by simp
  with a show "extractCwd fsp env path = Inr (Some cwd)"
    by (simp add: extractCwd_def Let_def)
next
  assume a: "fs_exists fsp path \<and> stream_lines (createReadStream fsp path) = pre @ line # post
        \<and> (\<forall>l\<in>set pre. cwd_skipped env l) \<and> cwd_aborts env line"
  then obtain e where "cwd_loop env (pre @ line # post) (stream_error (createReadStream fsp path))
               = Inl e"
    using cwd_loop_skipped[of pre env "line # post"] cwd_loop_aborts[of env line post]
    by force
  with a show "extractCwd fsp env path = Inr None"
    by (simp add: extractCwd_def Let_def)
next
  assume a: "fs_exists fsp path
     \<and> (\<forall>l\<in>set (stream_lines (createReadStream fsp path)). cwd_skipped env l)"
  then have "cwd_loop env (stream_lines (createReadStream fsp path))
       (stream_error (createReadStream fsp path)) =
     cwd_loop env [] (stream_error (createReadStream fsp path))"
    using cwd_loop_skipped[of "stream_lines (createReadStream fsp path)" env "[]"] by simp
  with a show "extractCwd fsp env path = Inr None"
    by (simp add: extractCwd_def Let_def split: option.splits)
qed


theorem extractCwd_scan_witness:
  "extractCwd (sample_fs [line_summary, '' '', line_cwd, ''{oops'']) sample_env ''session.jsonl''
     = Inr (Some (JStr ''/proj''))
   \<and> extractCwd (sample_fs [line_summary, ''{oops'', line_cwd]) sample_env ''session.jsonl''
     = Inr None
   \<and> extractCwd (sample_fs [line_summary, '' '']) sample_env ''session.jsonl'' = Inr None
   \<and> extractCwd (sample_fs [line_cwd]) sample_env ''missing.jsonl'' = Inr None"
proof -
  have s: "\<forall>l\<in>set [line_summary, '' '']. cwd_skipped sample_env l"
    "\<forall>l\<in>set [line_summary]. cwd_skipped sample_env l"
    by (simp_all add: cwd_skipped_def sample_defs)
  have f: "trim line_cwd \<noteq> []"
    "JSON_parse sample_env line_cwd = Some (JObj [(''cwd'', JStr ''/proj'')])"
    "map_of [(''cwd'', JStr ''/proj'')] ''cwd'' = Some (JStr ''/proj'')"
    "truthy (Some (JStr ''/proj''))"
    by (simp_all add: sample_defs)
  have a: "cwd_aborts sample_env ''{oops''"
    by (simp add: cwd_aborts_def sample_defs)
  have e: "\<And>ls. fs_exists (sample_fs ls) ''session.jsonl''"
    "\<And>ls. stream_lines (createReadStream (sample_fs ls) ''session.jsonl'') = ls"
    "\<And>ls. \<not> fs_exists (sample_fs ls) ''missing.jsonl''"
    by (simp_all add: sample_fs_def)
  show ?thesis
    using s f a e
      extractCwd_scan [of "sample_fs [line_summary, '' '', line_cwd, ''{oops'']" sample_env
        "''session.jsonl''" "[line_summary, '' '']" line_cwd "[''{oops'']"
        "[(''cwd'', JStr ''/proj'')]" "JStr ''/proj''"]
      extractCwd_scan [of "sample_fs [line_summary, ''{oops'', line_cwd]" sample_env
        "''session.jsonl''" "[line_summary]" "''{oops''" "[line_cwd]"
        "[(''cwd'', JStr ''/proj'')]" "JStr ''/proj''"]
      extractCwd_scan [of "sample_fs [line_summary, '' '']" sample_env
        "''session.jsonl''" "[line_summary]" "'' ''" "[]"
        "[(''cwd'', JStr ''/proj'')]" "JStr ''/proj''"]
      extractCwd_scan [of "sample_fs [line_cwd]" sample_env
        "''missing.jsonl''" "[]" "line_cwd" "[]"
        "[(''cwd'', JStr ''/proj'')]" "JStr ''/proj''"]
    by simp
qed

text \<open>
  The claim as stated fails on a file whose first line is the number \<^verbatim>\<open>5\<close> and whose
  second line is an entry with a \<^verbatim>\<open>cwd\<close>: no line is malformed JSON, and the result is
  \<^verbatim>\<open>null\<close>, not the \<^verbatim>\<open>cwd\<close> of the first entry that has one. It fails too when the first
  entry with a \<^verbatim>\<open>cwd\<close> field has the empty string there: the result is the \<^verbatim>\<open>cwd\<close> of a
  later entry.
\<close>

theorem extractCwd_null_after_number_line:
  "fs_exists (sample_fs [''5'', line_cwd]) ''session.jsonl''
   \<and> JSON_parse sample_env ''5'' = Some (JNum 5)
   \<and> JSON_parse sample_env line_cwd = Some (JObj [(''cwd'', JStr ''/proj'')])
   \<and> extractCwd (sample_fs [''5'', line_cwd]) sample_env ''session.jsonl'' = Inr None
   \<and> JSON_parse sample_env line_empty_cwd = Some (JObj [(''cwd'', JStr [])])
   \<and> extractCwd (sample_fs [line_empty_cwd, line_cwd]) sample_env ''session.jsonl''
       = Inr (Some (JStr ''/proj''))"
  by (simp add: extractCwd_def sample_defs)

section \<open>Results: extractFirstUserMessagePreview\<close>

lemma preview_loop_budget:
  "safeMaxLines \<le> linesRead \<Longrightarrow> preview_loop env safeMaxLines fb linesRead ls None = Inr fb"
  by (cases ls) simp_all

lemma preview_loop_step:
  "linesRead < safeMaxLines \<Longrightarrow>
   preview_loop env safeMaxLines fb linesRead (l # rest) err =
     (case line_preview env l of
        Inl e \<Rightarrow> Inl e
      | Inr None \<Rightarrow> preview_loop env safeMaxLines fb (linesRead + 1) rest err
      | Inr (Some p) \<Rightarrow>
          if \<not> isCommand p then Inr (Some (preview_text p, preview_timestamp p))
          else preview_loop env safeMaxLines
                 (case fb of None \<Rightarrow> Some (preview_text p, preview_timestamp p)
                           | Some fallback \<Rightarrow> Some fallback)
                 (linesRead + 1) rest err)"
  by (simp add: line_preview_def Let_def split: option.splits sum.splits)

lemma preview_loop_scan:
  "preview_loop env m fb k ls None = scan_lines env fb (take (nat (m - k)) ls)"
proof (induction ls arbitrary: fb k)
  case Nil
  show ?case by simp
next
  case (Cons l ls)
  show ?case
  proof (cases "k < m")
    case False
    then show ?thesis by simp
  next
    case True
    then have "nat (m - k) = Suc (nat (m - (k + 1)))" by linarith
    then have t: "take (nat (m - k)) (l # ls) = l # take (nat (m - (k + 1))) ls"
      by simp
    show ?thesis
      unfolding t preview_loop_step[OF True]
      by (simp add: Cons.IH split: sum.splits option.splits)
  qed
qed


lemma previews_of_Nil [simp]: "previews_of env [] = []"
  by (simp add: previews_of_def map_filter_simps)

lemma previews_of_Cons:
  "line_preview env l = Inr None \<Longrightarrow> previews_of env (l # ls) = previews_of env ls"
  "line_preview env l = Inr (Some p) \<Longrightarrow> previews_of env (l # ls) = p # previews_of env ls"
  "line_preview env l = Inl e \<Longrightarrow> previews_of env (l # ls) = previews_of env ls"
  by (simp_all add: previews_of_def map_filter_simps)

lemma scan_lines_no_throw:
  "\<forall>l\<in>set ls. \<not> throws env l \<Longrightarrow>
   scan_lines env fb ls =
     Inr (case find (\<lambda>p. \<not> isCommand p) (previews_of env ls) of
            Some p \<Rightarrow> Some (preview_text p, preview_timestamp p)
          | None \<Rightarrow>
              (case fb of
                 Some f \<Rightarrow> Some f
               | None \<Rightarrow> (case previews_of env ls of
                             [] \<Rightarrow> None
                           | p # _ \<Rightarrow> Some (preview_text p, preview_timestamp p))))"
proof (induction ls arbitrary: fb)
  case Nil
  show ?case by (simp split: option.splits)
next
  case (Cons l ls)
  then have nt: "\<not> throws env l" and r: "\<forall>l\<in>set ls. \<not> throws env l" by simp_all
  from nt obtain v where v: "line_preview env l = Inr v"
    by (cases "line_preview env l") (simp_all add: throws_def)
  show ?case
  proof (cases v)
    case None
    with v show ?thesis using Cons.IH[OF r, of fb]
      by (simp add: previews_of_Cons split: option.splits)
  next
    case (Some p)
    show ?thesis
    proof (cases "isCommand p")
      case False
      with v Some show ?thesis by (simp add: previews_of_Cons split: option.splits)
    next
      case True
      with v Some show ?thesis
        using Cons.IH[OF r, of "case fb of None \<Rightarrow> Some (preview_text p, preview_timestamp p)
                                   | Some fallback \<Rightarrow> Some fallback"]
        by (simp add: previews_of_Cons split: option.splits)
    qed
  qed
qed

lemma scan_lines_prefix:
  "\<forall>x\<in>set pre. \<not> throws env x \<Longrightarrow> \<forall>q\<in>set (previews_of env pre). isCommand q \<Longrightarrow>
   \<exists>fb'. scan_lines env fb (pre @ rest) = scan_lines env fb' rest"
proof (induction pre arbitrary: fb)
  case Nil
  show ?case by auto
next
  case (Cons l pre)
  then have nt: "\<not> throws env l" and r: "\<forall>l\<in>set pre. \<not> throws env l" by simp_all
  from nt obtain v where v: "line_preview env l = Inr v"
    by (cases "line_preview env l") (simp_all add: throws_def)
  show ?case
  proof (cases v)
    case None
    with v Cons.prems(2) have "\<forall>q\<in>set (previews_of env pre). isCommand q"
      by (simp add: previews_of_Cons)
    from Cons.IH[OF r this, of fb] v None show ?thesis by simp
  next
    case (Some p)
    with v Cons.prems(2) have c: "isCommand p" and q: "\<forall>q\<in>set (previews_of env pre). isCommand q"
      by (simp_all add: previews_of_Cons)
    from Cons.IH[OF r q] v Some c show ?thesis by simp
  qed
qed

lemma extractPreview_length:
  "extractPreviewFromUserEntry env entry = Inr (Some p) \<Longrightarrow> \<not> isCommand p \<Longrightarrow>
   length (preview_text p) \<le> 500"
  by (auto simp: extractPreviewFromUserEntry_def Let_def
      split: sum.splits option.splits json.splits if_splits)

lemma line_preview_length:
  "line_preview env l = Inr (Some p) \<Longrightarrow> \<not> isCommand p \<Longrightarrow> length (preview_text p) \<le> 500"
  by (auto simp: line_preview_def split: if_splits option.splits sum.splits
      dest: extractPreview_length)

lemma extract_as_scan:
  "stream_error (createReadStream fsp path) = None \<Longrightarrow>
   extractFirstUserMessagePreview fsp env path maxLines =
     scan_lines env None (inspected maxLines (stream_lines (createReadStream fsp path)))"
  by (simp add: extractFirstUserMessagePreview_def Let_def preview_loop_scan inspected_def
      split: sum.splits)

text \<open>
  What the loop does on a file read without error, \<open>maxLines\<close> a whole number. It
  looks at the first \<open>max 1 maxLines\<close> lines at most, and a line that fails to parse
  contributes nothing. If reading no inspected line throws, the result is the first
  preview that is not a command, else the earliest command preview, else \<^verbatim>\<open>null\<close>.
  The scan stops at the first inspected line that yields a preview that is not a
  command, returning it, with a text of at most 500 characters, or at the first
  inspected line whose entry cannot be read, throwing the error.
\<close>

lemma extractFirstUserMessagePreview_scan:
  "stream_error (createReadStream fsp path) = None \<Longrightarrow>
   ls = inspected maxLines (stream_lines (createReadStream fsp path)) \<Longrightarrow>
     length ls \<le> nat (max 1 maxLines)
     \<and> extractFirstUserMessagePreview fsp env path maxLines = scan_lines env None ls
     \<and> (JSON_parse env (trim unparsed) = None \<longrightarrow> line_preview env unparsed = Inr None)
     \<and> ((\<forall>x\<in>set ls. \<not> throws env x) \<longrightarrow>
          extractFirstUserMessagePreview fsp env path maxLines
            = Inr (select_preview (previews_of env ls)))
     \<and> (ls = pre @ l # post \<and> (\<forall>x\<in>set pre. \<not> throws env x)
          \<and> (\<forall>q\<in>set (previews_of env pre). isCommand q)
          \<and> line_preview env l = Inr (Some p) \<and> \<not> isCommand p \<longrightarrow>
          extractFirstUserMessagePreview fsp env path maxLines
            = Inr (Some (preview_text p, preview_timestamp p))
          \<and> length (preview_text p) \<le> 500)
     \<and> (ls = pre @ l # post \<and> (\<forall>x\<in>set pre. \<not> throws env x)
          \<and> (\<forall>q\<in>set (previews_of env pre). isCommand q)
          \<and> line_preview env l = Inl e \<longrightarrow>
          extractFirstUserMessagePreview fsp env path maxLines = Inl e)"
proof -
  assume se: "stream_error (createReadStream fsp path) = None"
    and ls: "ls = inspected maxLines (stream_lines (createReadStream fsp path))"
  have ex: "extractFirstUserMessagePreview fsp env path maxLines = scan_lines env None ls"
    using extract_as_scan[OF se] ls by simp
  have 1: "length ls \<le> nat (max 1 maxLines)" using ls by (simp add: inspected_def)
  have 2: "JSON_parse env (trim unparsed) = None \<longrightarrow> line_preview env unparsed = Inr None"
    by (simp add: line_preview_def)
  have 3: "(\<forall>x\<in>set ls. \<not> throws env x) \<longrightarrow>
          extractFirstUserMessagePreview fsp env path maxLines
            = Inr (select_preview (previews_of env ls))"
    using scan_lines_no_throw[of ls env None]
    by (simp add: ex select_preview_def split: option.splits)
  have 4: "ls = pre @ l # post \<and> (\<forall>x\<in>set pre. \<not> throws env x)
          \<and> (\<forall>q\<in>set (previews_of env pre). isCommand q)
          \<and> line_preview env l = Inr (Some p) \<and> \<not> isCommand p \<longrightarrow>
          extractFirstUserMessagePreview fsp env path maxLines
            = Inr (Some (preview_text p, preview_timestamp p))
          \<and> length (preview_text p) \<le> 500"
  proof (intro impI, elim conjE)
    assume a: "ls = pre @ l # post" "\<forall>x\<in>set pre. \<not> throws env x"
      "\<forall>q\<in>set (previews_of env pre). isCommand q"
      "line_preview env l = Inr (Some p)" "\<not> isCommand p"
    from scan_lines_prefix[OF a(2) a(3), of None "l # post"] obtain fb' where
      "scan_lines env None (pre @ l # post) = scan_lines env fb' (l # post)" by blast
    with a show "extractFirstUserMessagePreview fsp env path maxLines
            = Inr (Some (preview_text p, preview_timestamp p))
          \<and> length (preview_text p) \<le> 500"
      using line_preview_length[OF a(4) a(5)] by (simp add: ex)
  qed
  have 5: "ls = pre @ l # post \<and> (\<forall>x\<in>set pre. \<not> throws env x)
          \<and> (\<forall>q\<in>set (previews_of env pre). isCommand q)
          \<and> line_preview env l = Inl e \<longrightarrow>
          extractFirstUserMessagePreview fsp env path maxLines = Inl e"
  proof (intro impI, elim conjE)
    assume a: "ls = pre @ l # post" "\<forall>x\<in>set pre. \<not> throws env x"
      "\<forall>q\<in>set (previews_of env pre). isCommand q" "line_preview env l = Inl e"
    from scan_lines_prefix[OF a(2) a(3), of None "l # post"] obtain fb' where
      "scan_lines env None (pre @ l # post) = scan_lines env fb' (l # post)" by blast
    with a show "extractFirstUserMessagePreview fsp env path maxLines = Inl e"
      by (simp add: ex)
  qed
  from 1 ex 2 3 4 5 show ?thesis by blast
qed


lemma extractFirstUserMessagePreview_scan_example:
  "extractFirstUserMessagePreview (sample_fs [''5'', ''{oops'', line_command, line_user])
       sample_env ''session.jsonl'' 200
     = Inr (Some (''hello'', JStr ''2026-01-01T00:00:00.000Z''))
   \<and> extractFirstUserMessagePreview (sample_fs [''5'', ''{oops'', line_command, line_user])
       sample_env ''session.jsonl'' 3
     = Inr (Some (''/clear'', JStr ''2026-01-01T00:00:00.000Z''))
   \<and> extractFirstUserMessagePreview (sample_fs [line_command, ''null'', line_user])
       sample_env ''session.jsonl'' 200
     = Inl (ErrorObject ''TypeError'' ''Cannot read properties of null: type'')"
proof -
  let ?date = "JStr ''2026-01-01T00:00:00.000Z''"
  let ?cmd = "\<lparr> preview_text = ''/clear'', preview_timestamp = ?date, isCommand = True \<rparr>"
  let ?usr = "\<lparr> preview_text = ''hello'', preview_timestamp = ?date, isCommand = False \<rparr>"
  have i1: "[''5'', ''{oops'', line_command, line_user]
      = inspected 200 (stream_lines (createReadStream
          (sample_fs [''5'', ''{oops'', line_command, line_user]) ''session.jsonl''))"
    and i2: "[''5'', ''{oops'', line_command]
      = inspected 3 (stream_lines (createReadStream
          (sample_fs [''5'', ''{oops'', line_command, line_user]) ''session.jsonl''))"
    and i3: "[line_command, ''null'', line_user]
      = inspected 200 (stream_lines (createReadStream
          (sample_fs [line_command, ''null'', line_user]) ''session.jsonl''))"
    by (simp_all add: inspected_def sample_stream)
  have t: "\<forall>x\<in>set [''5'', ''{oops'', line_command]. \<not> throws sample_env x"
    "\<forall>x\<in>set [line_command]. \<not> throws sample_env x"
    by (simp_all add: throws_def sample_line_previews)
  have p: "previews_of sample_env [''5'', ''{oops'', line_command] = [?cmd]"
    "previews_of sample_env [line_command] = [?cmd]"
    by (simp_all add: previews_of_Cons sample_line_previews)
  have q: "\<forall>q\<in>set (previews_of sample_env [''5'', ''{oops'', line_command]). isCommand q"
    "\<forall>q\<in>set (previews_of sample_env [line_command]). isCommand q"
    by (simp_all add: p)
  have s: "select_preview [?cmd] = Some (''/clear'', ?date)"
    by (simp add: select_preview_def)
  show ?thesis
    using t p q s sample_line_previews
      extractFirstUserMessagePreview_scan [OF sample_stream(1) i1, where env = sample_env
          and unparsed = "''{oops''" and pre = "[''5'', ''{oops'', line_command]"
          and l = line_user and post = "[]" and p = ?usr]
      extractFirstUserMessagePreview_scan [OF sample_stream(1) i2, where env = sample_env
          and unparsed = "''{oops''" and pre = "[''5'', ''{oops'']"
          and l = line_command and post = "[]" and p = ?usr]
      extractFirstUserMessagePreview_scan [OF sample_stream(1) i3, where env = sample_env
          and unparsed = "''{oops''" and pre = "[line_command]"
          and l = "''null''" and post = "[line_user]" and p = ?usr
          and e = "ErrorObject ''TypeError'' ''Cannot read properties of null: type''"]
    by simp
qed

text \<open>
  Claim C9. The claim: the function inspects at most \<open>max 1 maxLines\<close> lines, skips
  lines that fail to parse, and returns the preview of the first user message that is
  not a command. The code breaks it on a file whose first line is \<^verbatim>\<open>null\<close> and whose
  second line is a user message: the line \<^verbatim>\<open>null\<close> parses, the user message lies
  within the budget and its preview is what the claim's selection gives, and the
  function throws a TypeError. A first line \<^verbatim>\<open>5\<close>, another value that is no user
  entry, is passed over and the preview returned. The function throws as well on a
  user message whose text block holds an object with a key \<^verbatim>\<open>toString\<close>.
\<close>

theorem extractFirstUserMessagePreview_throws_on_null_line:
  "stream_error (createReadStream (sample_fs [''null'', line_user]) ''session.jsonl'') = None
   \<and> inspected 200 (stream_lines (createReadStream (sample_fs [''null'', line_user])
        ''session.jsonl'')) = [''null'', line_user]
   \<and> JSON_parse sample_env (trim ''null'') = Some JNull
   \<and> select_preview (previews_of sample_env [''null'', line_user])
        = Some (''hello'', JStr ''2026-01-01T00:00:00.000Z'')
   \<and> extractFirstUserMessagePreview (sample_fs [''null'', line_user]) sample_env
        ''session.jsonl'' 200
        = Inl (ErrorObject ''TypeError'' ''Cannot read properties of null: type'')
   \<and> extractFirstUserMessagePreview (sample_fs [''5'', line_user]) sample_env
        ''session.jsonl'' 200
        = Inr (Some (''hello'', JStr ''2026-01-01T00:00:00.000Z''))
   \<and> extractFirstUserMessagePreview (sample_fs [line_text_object, line_user]) sample_env
        ''session.jsonl'' 200
        = Inl (ErrorObject ''TypeError'' ''Cannot convert object to primitive value'')"
proof -
  have a: "\<And>ls. stream_error (createReadStream (sample_fs ls) ''session.jsonl'') = None"
    and b: "\<And>x y. inspected 200 (stream_lines (createReadStream (sample_fs [x, y])
        ''session.jsonl'')) = [x, y]"
    by (simp_all add: inspected_def sample_stream)
  have c: "JSON_parse sample_env (trim ''null'') = Some JNull"
    by (simp add: sample_defs)
  have d: "select_preview (previews_of sample_env [''null'', line_user])
        = Some (''hello'', JStr ''2026-01-01T00:00:00.000Z'')"
    by (simp add: previews_of_Cons sample_line_previews select_preview_def)
  have e: "extractFirstUserMessagePreview (sample_fs [''null'', line_user]) sample_env
        ''session.jsonl'' 200
        = Inl (ErrorObject ''TypeError'' ''Cannot read properties of null: type'')"
    unfolding extract_as_scan[OF a] b by (simp add: sample_line_previews)
  have f: "extractFirstUserMessagePreview (sample_fs [''5'', line_user]) sample_env
        ''session.jsonl'' 200
        = Inr (Some (''hello'', JStr ''2026-01-01T00:00:00.000Z''))"
    unfolding extract_as_scan[OF a] b by (simp add: sample_line_previews)
  have g: "extractFirstUserMessagePreview (sample_fs [line_text_object, line_user]) sample_env
        ''session.jsonl'' 200
        = Inl (ErrorObject ''TypeError'' ''Cannot convert object to primitive value'')"
    unfolding extract_as_scan[OF a] b by (simp add: sample_line_previews)
  from a b c d e f g show ?thesis by simp
qed

end
